theory Spec2Isabelle
  imports Complex_Main "HOL-Library.Sublist"
begin

section \<open>AI Vision Assistant (apps.py): a shallow embedding\<close>

text \<open>
  The program is one Streamlit script. On every interaction the script runs from top to
  bottom: it draws the page, reads three widgets (category, uploaded file, query), and,
  when a file and a query are present, posts the image to an image-analysis endpoint,
  formats the answer into a prompt, sends the prompt to a language model and shows the
  reply.

  Conventions of the embedding:
  \<^item> a Python \<open>str\<close> is a \<open>string\<close> holding its UTF-8 encoding; \<open>bytes\<close> is a \<open>string\<close> too.
    The program only concatenates, joins and tests strings for emptiness, and these agree
    on code points and on their UTF-8 bytes;
  \<^item> a Python value decoded from JSON is a \<open>pyval\<close>; a dict is an association list in
    insertion order with distinct keys;
  \<^item> an exception is a value \<open>PyException class message\<close>, the message being what
    \<open>str(e)\<close> returns; a computation that may raise returns \<open>py_exception + 'a\<close>;
  \<^item> every outside call (HTTP post, language model, Streamlit widget) is recorded as an
    \<open>event\<close>; an effectful computation returns its result together with the events it
    caused, in order;
  \<^item> what the outside world answers is a parameter, the record \<open>world\<close>; the secrets read
    at start-up are the record \<open>config\<close>. The model starts once the imports and the
    secret look-ups of lines 1 to 29 have succeeded, and Streamlit's display calls are
    taken not to raise.
\<close>

subsection \<open>Python values and exceptions\<close>

datatype pyval =
    PNone
  | PBool bool
  | PInt int
  | PFloat real
  | PStr string
  | PList "pyval list"
  | PDict "(string \<times> pyval) list"

datatype py_exception = PyException (exc_class: string) (exc_str: string)

text \<open>The name Python prints for the type of a value (\<open>type(v).__name__\<close>).\<close>

fun type_name :: "pyval \<Rightarrow> string" where
  "type_name PNone = ''NoneType''"
| "type_name (PBool b) = ''bool''"
| "type_name (PInt i) = ''int''"
| "type_name (PFloat x) = ''float''"
| "type_name (PStr s) = ''str''"
| "type_name (PList xs) = ''list''"
| "type_name (PDict d) = ''dict''"

definition quoted :: "string \<Rightarrow> string" where
  "quoted s = [CHR 0x27] @ s @ [CHR 0x27]"

definition TypeError :: "string \<Rightarrow> py_exception" where
  "TypeError msg = PyException ''TypeError'' msg"

definition ValueError :: "string \<Rightarrow> py_exception" where
  "ValueError msg = PyException ''ValueError'' msg"

subsection \<open>The outside world\<close>

record config =
  HF_API_URL :: string
  HF_TOKEN :: string
  MEDICAL_MODEL :: string
  GENERAL_MODEL :: string
  PRODUCT_MODEL :: string

record http_request =
  url :: string
  headers :: "(string \<times> string) list"
  data :: string
  timeout :: int

text \<open>
  Of a response the program reads the status code and calls \<open>json()\<close>, which returns the
  decoded body or raises when the body is not JSON.
\<close>

record http_response =
  status_code :: int
  json :: "py_exception + pyval"

text \<open>
  \<open>requests_post\<close>: what \<open>requests.post\<close> does with a request (a response, or a raised
  transport exception). \<open>groq_chat\<close>: what the chain \<open>groq_chat | StrOutputParser()\<close>
  does with a formatted prompt (the completion text, or a raised exception).
  \<open>repr_str\<close> and \<open>repr_float\<close>: the interpreter's \<open>repr\<close> of a string and of a float,
  which depend on Unicode tables and on shortest round-trip printing.
\<close>

record world =
  requests_post :: "http_request \<Rightarrow> py_exception + http_response"
  groq_chat :: "string \<Rightarrow> py_exception + string"
  repr_str :: "string \<Rightarrow> string"
  repr_float :: "real \<Rightarrow> string"

datatype event =
    Http_post http_request
  | Llm_invoke string
  | St_set_page_config string string
  | St_title string
  | St_selectbox string "string list"
  | St_file_uploader string "string list"
  | St_text_input string
  | St_image string string
  | St_spinner string
  | St_subheader string
  | St_write string
  | St_warning string
  | St_error string
  | St_sidebar_markdown string

type_synonym 'a eff = "(py_exception + 'a) \<times> event list"

text \<open>Sequencing: a raised exception skips the rest; the events so far stay.\<close>

definition bind_eff :: "'a eff \<Rightarrow> ('a \<Rightarrow> 'b eff) \<Rightarrow> 'b eff" where
  "bind_eff m f =
     (case m of
        (Inl e, ev) \<Rightarrow> (Inl e, ev)
      | (Inr a, ev) \<Rightarrow> (case f a of (r, ev') \<Rightarrow> (r, ev @ ev')))"

text \<open>\<open>try: m except Exception as e: h e\<close>.\<close>

definition try_except :: "'a eff \<Rightarrow> (py_exception \<Rightarrow> 'a eff) \<Rightarrow> 'a eff" where
  "try_except m h =
     (case m of
        (Inl e, ev) \<Rightarrow> (case h e of (r, ev') \<Rightarrow> (r, ev @ ev'))
      | (Inr a, ev) \<Rightarrow> (Inr a, ev))"

definition pure_eff :: "py_exception + 'a \<Rightarrow> 'a eff" where
  "pure_eff r = (r, [])"

definition post :: "world \<Rightarrow> http_request \<Rightarrow> http_response eff" where
  "post w req = (requests_post w req, [Http_post req])"

definition invoke_llm :: "world \<Rightarrow> string \<Rightarrow> string eff" where
  "invoke_llm w prompt = (groq_chat w prompt, [Llm_invoke prompt])"

subsection \<open>Built-ins of Python the script uses\<close>

text \<open>Decimal printing of integers.\<close>

fun str_nat :: "nat \<Rightarrow> string" where
  "str_nat n =
     (if n < 10 then [''0123456789'' ! n]
      else str_nat (n div 10) @ [''0123456789'' ! (n mod 10)])"

definition str_int :: "int \<Rightarrow> string" where
  "str_int i = (if i < 0 then ''-'' @ str_nat (nat (- i)) else str_nat (nat i))"

text \<open>\<open>sep.join(xs)\<close> on strings.\<close>

fun join_strs :: "string \<Rightarrow> string list \<Rightarrow> string" where
  "join_strs sep [] = []"
| "join_strs sep [s] = s"
| "join_strs sep (s # t # ts) = s @ sep @ join_strs sep (t # ts)"

text \<open>
  \<open>repr\<close> and \<open>str\<close> of a value decoded from JSON. \<open>str\<close> of a string is the string;
  of anything else it is its \<open>repr\<close>.
\<close>

fun py_repr :: "world \<Rightarrow> pyval \<Rightarrow> string" where
  "py_repr w PNone = ''None''"
| "py_repr w (PBool b) = (if b then ''True'' else ''False'')"
| "py_repr w (PInt i) = str_int i"
| "py_repr w (PFloat x) = repr_float w x"
| "py_repr w (PStr s) = repr_str w s"
| "py_repr w (PList xs) = ''['' @ join_strs '', '' (map (py_repr w) xs) @ '']''"
| "py_repr w (PDict d) =
     ''{'' @ join_strs '', '' (map (\<lambda>kv. repr_str w (fst kv) @ '': '' @ py_repr w (snd kv)) d) @ ''}''"

fun py_str :: "world \<Rightarrow> pyval \<Rightarrow> string" where
  "py_str w (PStr s) = s"
| "py_str w v = py_repr w v"

text \<open>
  \<open>v[k]\<close> with a string key \<open>k\<close>: a dict looks the key up and raises \<open>KeyError\<close> when it
  is missing; every other JSON value raises \<open>TypeError\<close> (wording of CPython 3.11).
\<close>

fun getitem :: "world \<Rightarrow> pyval \<Rightarrow> string \<Rightarrow> py_exception + pyval" where
  "getitem w (PDict d) k =
     (case map_of d k of
        None \<Rightarrow> Inl (PyException ''KeyError'' (repr_str w k))
      | Some v \<Rightarrow> Inr v)"
| "getitem w (PStr s) k =
     Inl (TypeError (''string indices must be integers, not '' @ quoted ''str''))"
| "getitem w (PList xs) k =
     Inl (TypeError ''list indices must be integers or slices, not str'')"
| "getitem w v k =
     Inl (TypeError (quoted (type_name v) @ '' object is not subscriptable''))"

text \<open>
  \<open>sep.join(items)\<close> on a list of values: every item must be a \<open>str\<close>; the first that is
  not raises \<open>TypeError\<close>, naming its index (counted from \<open>i\<close>).
\<close>

fun str_join :: "string \<Rightarrow> nat \<Rightarrow> pyval list \<Rightarrow> py_exception + string" where
  "str_join sep i [] = Inr []"
| "str_join sep i (PStr s # rest) =
     (case str_join sep (Suc i) rest of
        Inl e \<Rightarrow> Inl e
      | Inr t \<Rightarrow> Inr (if rest = [] then s else s @ sep @ t))"
| "str_join sep i (v # rest) =
     Inl (TypeError (''sequence item '' @ str_nat i @ '': expected str instance, ''
                       @ type_name v @ '' found''))"

text \<open>
  \<open>template.format(**vars)\<close> as the f-string templates of LangChain's
  \<open>ChatPromptTemplate.from_template\<close> use it: literal text, the escapes \<open>{{\<close> and \<open>}}\<close>,
  and fields \<open>{name}\<close> replaced by the value bound to \<open>name\<close>. A value is inserted as it
  is and never read as a template. The second argument is the field name being read
  (\<open>None\<close> outside a field).
\<close>

fun format_from :: "(string \<times> string) list \<Rightarrow> string option \<Rightarrow> string \<Rightarrow> py_exception + string" where
  "format_from vars None [] = Inr []"
| "format_from vars (Some name) [] =
     Inl (ValueError (''expected '' @ quoted ''}'' @ '' before end of string''))"
| "format_from vars None (c # cs) =
     (if c = CHR ''{'' then
        (case cs of
           [] \<Rightarrow> Inl (ValueError (''Single '' @ quoted ''{'' @ '' encountered in format string''))
         | c' # cs' \<Rightarrow>
             if c' = CHR ''{'' then map_sum id ((#) c) (format_from vars None cs')
             else format_from vars (Some []) cs)
      else if c = CHR ''}'' then
        (case cs of
           [] \<Rightarrow> Inl (ValueError (''Single '' @ quoted ''}'' @ '' encountered in format string''))
         | c' # cs' \<Rightarrow>
             if c' = CHR ''}'' then map_sum id ((#) c) (format_from vars None cs')
             else Inl (ValueError (''Single '' @ quoted ''}'' @ '' encountered in format string'')))
      else map_sum id ((#) c) (format_from vars None cs))"
| "format_from vars (Some name) (c # cs) =
     (if c = CHR ''}'' then
        (case map_of vars name of
           None \<Rightarrow> Inl (PyException ''KeyError'' (quoted name))
         | Some v \<Rightarrow> map_sum id ((@) v) (format_from vars None cs))
      else format_from vars (Some (name @ [c])) cs)"

definition format_template :: "string \<Rightarrow> (string \<times> string) list \<Rightarrow> py_exception + string" where
  "format_template template vars = format_from vars None template"

subsection \<open>Tag extraction: \<open>analyze_image\<close> (lines 31 to 44)\<close>

definition analyze_image :: "config \<Rightarrow> world \<Rightarrow> string \<Rightarrow> string \<Rightarrow> pyval eff" where
  "analyze_image cfg w image_bytes model_name =
     (let hdrs = [(''Authorization'', ''Bearer '' @ HF_TOKEN cfg)] in
      try_except
        (bind_eff
           (post w \<lparr>url = HF_API_URL cfg @ model_name, headers = hdrs,
                    data = image_bytes, timeout = 30\<rparr>)
           (\<lambda>response.
              if status_code response = 200 then pure_eff (json response)
              else pure_eff (Inr (PList []))))
        (\<lambda>e. pure_eff (Inr (PStr (''Analysis error: '' @ exc_str e)))))"

subsection \<open>Prompt templates and the three response functions (lines 46 to 100)\<close>

definition medical_template :: string where
  "medical_template = ''\<newline>    As a medical assistant, analyze these image tags: {tags}\<newline>    For this question: {query}\<newline>\<newline>    Provide:\<newline>    1. 3 possible conditions matching these symptoms\<newline>    2. Recommended diagnostic tests\<newline>    3. Urgency level (Emergency/Urgent/Routine)\<newline>    4. Clear disclaimer\<newline>    \<newline>    Format: Concise bullet points in plain text\<newline>    ''"

definition product_template :: string where
  "product_template = ''\<newline>    Analyze product features: {analysis}\<newline>    For query: {query}\<newline>\<newline>    Provide:\<newline>    1. Product identification\<newline>    2. Price estimate range (USD)\<newline>    3. 3 fictional purchase options\<newline>    4. Alternative suggestions\<newline>    \<newline>    Format: Simple text with line breaks\<newline>    ''"

definition general_template :: string where
  "general_template = ''\<newline>    Analyze image description: {analysis}\<newline>    For question: {query}\<newline>\<newline>    Provide:\<newline>    1. Direct answer\<newline>    2. 3 relevant facts\<newline>    3. Related information\<newline>    \<newline>    Format: Short paragraphs in plain text\<newline>    ''"

text \<open>
  \<open>(prompt | groq_chat | StrOutputParser()).invoke({...})\<close>: the template is formatted
  with the two values (each through \<open>str\<close>), and the formatted prompt goes to the model.
  \<open>tags\<close> is whatever line 125 produced, a string or not; the other two functions are
  only called with strings.
\<close>

definition get_medical_response :: "world \<Rightarrow> pyval \<Rightarrow> string \<Rightarrow> string eff" where
  "get_medical_response w tags query =
     bind_eff
       (pure_eff (format_template medical_template
                    [(''tags'', py_str w tags), (''query'', query)]))
       (invoke_llm w)"

definition get_product_response :: "world \<Rightarrow> string \<Rightarrow> string \<Rightarrow> string eff" where
  "get_product_response w analysis query =
     bind_eff
       (pure_eff (format_template product_template
                    [(''analysis'', analysis), (''query'', query)]))
       (invoke_llm w)"

definition get_general_response :: "world \<Rightarrow> string \<Rightarrow> string \<Rightarrow> string eff" where
  "get_general_response w analysis query =
     bind_eff
       (pure_eff (format_template general_template
                    [(''analysis'', analysis), (''query'', query)]))
       (invoke_llm w)"

subsection \<open>The page (lines 103 to 163)\<close>

text \<open>
  The select box of line 108 returns one of its three options; the branch for
  \<open>"Medical"\<close> comes first, then the one for \<open>"Product"\<close>, and the \<open>else\<close> branch is General.
\<close>

datatype category = General | Medical | Product

text \<open>The list comprehension \<open>[item["label"] for item in raw_tags]\<close> of line 125.\<close>

fun item_labels :: "world \<Rightarrow> pyval list \<Rightarrow> py_exception + pyval list" where
  "item_labels w [] = Inr []"
| "item_labels w (item # items) =
     (case getitem w item ''label'' of
        Inl e \<Rightarrow> Inl e
      | Inr v \<Rightarrow>
          (case item_labels w items of
             Inl e \<Rightarrow> Inl e
           | Inr vs \<Rightarrow> Inr (v # vs)))"

text \<open>
  Line 125:
  \<open>", ".join([item["label"] for item in raw_tags]) if isinstance(raw_tags, list) else raw_tags\<close>.
\<close>

fun medical_tags :: "world \<Rightarrow> pyval \<Rightarrow> py_exception + pyval" where
  "medical_tags w (PList items) =
     (case item_labels w items of
        Inl e \<Rightarrow> Inl e
      | Inr labels \<Rightarrow> map_sum id PStr (str_join '', '' 0 labels))"
| "medical_tags w raw_tags = Inr raw_tags"

text \<open>
  The body of the \<open>try\<close> (lines 122 to 137): it yields the model's response and the
  category's disclaimer.
\<close>

definition run_analysis ::
  "config \<Rightarrow> world \<Rightarrow> category \<Rightarrow> string \<Rightarrow> string \<Rightarrow> (string \<times> string) eff" where
  "run_analysis cfg w category image_bytes user_query =
     (case category of
        Medical \<Rightarrow>
          bind_eff (analyze_image cfg w image_bytes (MEDICAL_MODEL cfg)) (\<lambda>raw_tags.
          bind_eff (pure_eff (medical_tags w raw_tags)) (\<lambda>tags.
          bind_eff (get_medical_response w tags user_query) (\<lambda>response.
          pure_eff (Inr (response,
            [CHR 0xE2, CHR 0x9A, CHR 0xA0, CHR 0xEF, CHR 0xB8, CHR 0x8F]
              @ '' This is not medical advice - Consult a doctor for diagnosis'')))))
      | Product \<Rightarrow>
          bind_eff (analyze_image cfg w image_bytes (PRODUCT_MODEL cfg)) (\<lambda>analysis.
          bind_eff (get_product_response w (py_str w analysis) user_query) (\<lambda>response.
          pure_eff (Inr (response,
            [CHR 0xE2, CHR 0x84, CHR 0xB9, CHR 0xEF, CHR 0xB8, CHR 0x8F]
              @ '' Price estimates are approximate''))))
      | General \<Rightarrow>
          bind_eff (analyze_image cfg w image_bytes (GENERAL_MODEL cfg)) (\<lambda>analysis.
          bind_eff (get_general_response w (py_str w analysis) user_query) (\<lambda>response.
          pure_eff (Inr (response, [])))))"

text \<open>Lines 139 to 143: the result block, and the disclaimer when it is not empty.\<close>

definition show_results :: "string \<times> string \<Rightarrow> unit eff" where
  "show_results rd =
     (case rd of (response, disclaimer) \<Rightarrow>
        (Inr (),
         [St_subheader ''Analysis Results'', St_write response]
           @ (if disclaimer \<noteq> [] then [St_warning disclaimer] else [])))"

text \<open>
  Lines 116 to 146. \<open>uploaded_file\<close> is \<open>None\<close> or an uploaded file (always truthy),
  given here by its bytes; an empty query is falsy.
\<close>

definition main_block ::
  "config \<Rightarrow> world \<Rightarrow> category \<Rightarrow> string option \<Rightarrow> string \<Rightarrow> event list" where
  "main_block cfg w category uploaded_file user_query =
     (case uploaded_file of
        None \<Rightarrow> []
      | Some image_bytes \<Rightarrow>
          if user_query = [] then []
          else
            [St_image image_bytes ''Uploaded Image'', St_spinner ''Analyzing...'']
              @ snd (try_except
                       (bind_eff (run_analysis cfg w category image_bytes user_query)
                          show_results)
                       (\<lambda>e. (Inr (), [St_error (''Analysis failed: '' @ exc_str e)]))))"

definition page_header :: "event list" where
  "page_header =
     [St_set_page_config ''AI Vision Assistant'' ''wide'',
      St_title ([CHR 0xF0, CHR 0x9F, CHR 0x96, CHR 0xBC, CHR 0xEF, CHR 0xB8, CHR 0x8F]
                  @ '' AI Vision Assistant''),
      St_subheader ''Upload Image + Select Analysis Type'',
      St_selectbox ''Select Analysis Type:'' [''General'', ''Medical'', ''Product''],
      St_file_uploader ''Choose an image...'' [''jpg'', ''jpeg'', ''png''],
      St_text_input ''Ask about the image:'']"

definition sidebar :: "event list" where
  "sidebar =
     [St_sidebar_markdown ''## Category Guide'',
      St_sidebar_markdown ''\<newline>- **General**: Landscapes, objects, animals\<newline>- **Medical**: Skin conditions, X-rays, scans\<newline>- **Product**: Consumer goods, electronics, clothing\<newline>'',
      St_sidebar_markdown ''## How It Works'',
      St_sidebar_markdown ''\<newline>1. Select image type\<newline>2. Upload image\<newline>3. Ask your question\<newline>4. Get AI-powered analysis\<newline>'']"

text \<open>One run of the script, given what the three widgets return.\<close>

definition app ::
  "config \<Rightarrow> world \<Rightarrow> category \<Rightarrow> string option \<Rightarrow> string \<Rightarrow> event list" where
  "app cfg w category uploaded_file user_query =
     page_header @ main_block cfg w category uploaded_file user_query @ sidebar"

subsection \<open>Example inputs\<close>

text \<open>
  A configuration, and worlds that answer every post and every prompt the same way.
  Their \<open>repr\<close> of a string is right on printable ASCII without quotes or backslashes,
  their \<open>repr\<close> of a float on whole numbers of moderate size (\<open>repr(2.0)\<close> is \<open>2.0\<close>);
  the examples print nothing else.
\<close>

definition example_config :: config where
  "example_config =
     \<lparr>HF_API_URL = ''https://api-inference.huggingface.co/models/'',
      HF_TOKEN = ''hf_secret'',
      MEDICAL_MODEL = ''medical-clip'',
      GENERAL_MODEL = ''general-vit'',
      PRODUCT_MODEL = ''product-vit''\<rparr>"

definition integral_float_repr :: "real \<Rightarrow> string" where
  "integral_float_repr x = str_int \<lfloor>x\<rfloor> @ ''.0''"

definition example_world ::
  "(py_exception + http_response) \<Rightarrow> (py_exception + string) \<Rightarrow> world" where
  "example_world post_result llm_result =
     \<lparr>requests_post = (\<lambda>req. post_result), groq_chat = (\<lambda>prompt. llm_result),
      repr_str = quoted, repr_float = integral_float_repr\<rparr>"

text \<open>The tag list of the medical example.\<close>

definition rash_tags :: "pyval list" where
  "rash_tags =
     [PDict [(''label'', PStr ''rash''), (''score'', PFloat 0.9)],
      PDict [(''label'', PStr ''erythema''), (''score'', PFloat 0.7)]]"

text \<open>A response with status 200 whose body is not JSON, so that \<open>json()\<close> raises.\<close>

definition undecodable_response :: http_response where
  "undecodable_response =
     \<lparr>status_code = 200,
      json = Inl (PyException ''JSONDecodeError'' ''Expecting value: line 1 column 1 (char 0)'')\<rparr>"

text \<open>A response with status 503, whose body is not JSON either.\<close>

definition unavailable_response :: http_response where
  "unavailable_response =
     \<lparr>status_code = 503,
      json = Inl (PyException ''JSONDecodeError'' ''Expecting value: line 1 column 1 (char 0)'')\<rparr>"

section \<open>Properties\<close>

subsection \<open>Sequencing, templates and tag extraction\<close>

lemma bind_eff_simps:
  "bind_eff (Inl e, ev) f = (Inl e, ev)"
  "bind_eff (Inr a, ev) f = (fst (f a), ev @ snd (f a))"
  by (simp_all add: bind_eff_def split: prod.splits)

lemma try_except_simps:
  "try_except (Inl e, ev) h = (fst (h e), ev @ snd (h e))"
  "try_except (Inr a, ev) h = (Inr a, ev)"
  by (simp_all add: try_except_def split: prod.splits)

lemma format_medical:
  "format_template medical_template [(''tags'', t), (''query'', q)] =
     Inr (''\<newline>    As a medical assistant, analyze these image tags: '' @ t
          @ ''\<newline>    For this question: '' @ q
          @ ''\<newline>\<newline>    Provide:\<newline>    1. 3 possible conditions matching these symptoms\<newline>    2. Recommended diagnostic tests\<newline>    3. Urgency level (Emergency/Urgent/Routine)\<newline>    4. Clear disclaimer\<newline>    \<newline>    Format: Concise bullet points in plain text\<newline>    '')"
  by (simp add: format_template_def medical_template_def)

lemma format_product:
  "format_template product_template [(''analysis'', a), (''query'', q)] =
     Inr (''\<newline>    Analyze product features: '' @ a
          @ ''\<newline>    For query: '' @ q
          @ ''\<newline>\<newline>    Provide:\<newline>    1. Product identification\<newline>    2. Price estimate range (USD)\<newline>    3. 3 fictional purchase options\<newline>    4. Alternative suggestions\<newline>    \<newline>    Format: Simple text with line breaks\<newline>    '')"
  by (simp add: format_template_def product_template_def)

lemma format_general:
  "format_template general_template [(''analysis'', a), (''query'', q)] =
     Inr (''\<newline>    Analyze image description: '' @ a
          @ ''\<newline>    For question: '' @ q
          @ ''\<newline>\<newline>    Provide:\<newline>    1. Direct answer\<newline>    2. 3 relevant facts\<newline>    3. Related information\<newline>    \<newline>    Format: Short paragraphs in plain text\<newline>    '')"
  by (simp add: format_template_def general_template_def)

lemma analyze_image_eq:
  "analyze_image cfg w image_bytes model_name =
     (Inr (case requests_post w \<lparr>url = HF_API_URL cfg @ model_name,
                 headers = [(''Authorization'', ''Bearer '' @ HF_TOKEN cfg)],
                 data = image_bytes, timeout = 30\<rparr> of
             Inl e \<Rightarrow> PStr (''Analysis error: '' @ exc_str e)
           | Inr response \<Rightarrow>
               if status_code response = 200 then
                 (case json response of
                    Inl e \<Rightarrow> PStr (''Analysis error: '' @ exc_str e)
                  | Inr v \<Rightarrow> v)
               else PList []),
      [Http_post \<lparr>url = HF_API_URL cfg @ model_name,
                 headers = [(''Authorization'', ''Bearer '' @ HF_TOKEN cfg)],
                 data = image_bytes, timeout = 30\<rparr>])"
  by (simp add: analyze_image_def post_def pure_eff_def bind_eff_def try_except_def Let_def
           split: sum.splits)

lemma analyze_image_total:
  "\<exists>v. analyze_image cfg w image_bytes model_name =
     (Inr v, [Http_post \<lparr>url = HF_API_URL cfg @ model_name,
                 headers = [(''Authorization'', ''Bearer '' @ HF_TOKEN cfg)],
                 data = image_bytes, timeout = 30\<rparr>])"
  by (simp add: analyze_image_eq)

lemma get_medical_response_eq:
  "format_template medical_template [(''tags'', py_str w tags), (''query'', q)] = Inr p \<Longrightarrow>
   get_medical_response w tags q = (groq_chat w p, [Llm_invoke p])"
  by (simp add: get_medical_response_def pure_eff_def invoke_llm_def bind_eff_simps)

lemma get_product_response_eq:
  "format_template product_template [(''analysis'', a), (''query'', q)] = Inr p \<Longrightarrow>
   get_product_response w a q = (groq_chat w p, [Llm_invoke p])"
  by (simp add: get_product_response_def pure_eff_def invoke_llm_def bind_eff_simps)

lemma get_general_response_eq:
  "format_template general_template [(''analysis'', a), (''query'', q)] = Inr p \<Longrightarrow>
   get_general_response w a q = (groq_chat w p, [Llm_invoke p])"
  by (simp add: get_general_response_def pure_eff_def invoke_llm_def bind_eff_simps)

lemma run_analysis_medical:
  assumes "analyze_image cfg w img (MEDICAL_MODEL cfg) = (Inr raw_tags, evs)"
    and "medical_tags w raw_tags = Inr tags"
    and "format_template medical_template [(''tags'', py_str w tags), (''query'', q)] = Inr p"
  shows "run_analysis cfg w Medical img q =
     (map_sum id (\<lambda>r. (r, [CHR 0xE2, CHR 0x9A, CHR 0xA0, CHR 0xEF, CHR 0xB8, CHR 0x8F]
              @ '' This is not medical advice - Consult a doctor for diagnosis'')) (groq_chat w p),
      evs @ [Llm_invoke p])"
  using assms
  by (cases "groq_chat w p")
     (simp_all add: run_analysis_def get_medical_response_eq pure_eff_def bind_eff_simps)

lemma run_analysis_medical_raises:
  assumes "analyze_image cfg w img (MEDICAL_MODEL cfg) = (Inr raw_tags, evs)"
    and "medical_tags w raw_tags = Inl e"
  shows "run_analysis cfg w Medical img q = (Inl e, evs)"
  using assms by (simp add: run_analysis_def pure_eff_def bind_eff_simps)

lemma run_analysis_product:
  assumes "analyze_image cfg w img (PRODUCT_MODEL cfg) = (Inr analysis, evs)"
    and "format_template product_template [(''analysis'', py_str w analysis), (''query'', q)] = Inr p"
  shows "run_analysis cfg w Product img q =
     (map_sum id (\<lambda>r. (r, [CHR 0xE2, CHR 0x84, CHR 0xB9, CHR 0xEF, CHR 0xB8, CHR 0x8F]
              @ '' Price estimates are approximate'')) (groq_chat w p),
      evs @ [Llm_invoke p])"
  using assms
  by (cases "groq_chat w p")
     (simp_all add: run_analysis_def get_product_response_eq pure_eff_def bind_eff_simps)

lemma run_analysis_general:
  assumes "analyze_image cfg w img (GENERAL_MODEL cfg) = (Inr analysis, evs)"
    and "format_template general_template [(''analysis'', py_str w analysis), (''query'', q)] = Inr p"
  shows "run_analysis cfg w General img q =
     (map_sum id (\<lambda>r. (r, [])) (groq_chat w p), evs @ [Llm_invoke p])"
  using assms
  by (cases "groq_chat w p")
     (simp_all add: run_analysis_def get_general_response_eq pure_eff_def bind_eff_simps)

lemma main_block_shown:
  assumes "q \<noteq> []" and "run_analysis cfg w category img q = (Inr (r, d), evs)"
  shows "main_block cfg w category (Some img) q =
     [St_image img ''Uploaded Image'', St_spinner ''Analyzing...''] @ evs
       @ [St_subheader ''Analysis Results'', St_write r]
       @ (if d \<noteq> [] then [St_warning d] else [])"
  using assms
  by (simp add: main_block_def show_results_def bind_eff_simps try_except_simps)

lemma main_block_failed:
  assumes "q \<noteq> []" and "run_analysis cfg w category img q = (Inl e, evs)"
  shows "main_block cfg w category (Some img) q =
     [St_image img ''Uploaded Image'', St_spinner ''Analyzing...''] @ evs
       @ [St_error (''Analysis failed: '' @ exc_str e)]"
  using assms
  by (simp add: main_block_def bind_eff_simps try_except_simps)

subsection \<open>Medical tags are joined with commas\<close>

lemma item_labels_labelled:
  "list_all2 (\<lambda>item l. \<exists>d. item = PDict d \<and> map_of d ''label'' = Some (PStr l)) items labels
   \<Longrightarrow> item_labels w items = Inr (map PStr labels)"
  by (induction items labels rule: list_all2_induct) auto

lemma str_join_strings: "str_join sep i (map PStr ls) = Inr (join_strs sep ls)"
proof (induction ls arbitrary: i)
  case Nil
  show ?case by simp
next
  case (Cons l ls)
  have "str_join sep i (map PStr (l # ls)) =
          Inr (if map PStr ls = [] then l else l @ sep @ join_strs sep ls)"
    by (simp add: Cons.IH [of "Suc i"])
  also have "(if map PStr ls = [] then l else l @ sep @ join_strs sep ls) = join_strs sep (l # ls)"
    by (cases ls) simp_all
  finally show ?case .
qed

lemma medical_tags_labelled:
  "list_all2 (\<lambda>item l. \<exists>d. item = PDict d \<and> map_of d ''label'' = Some (PStr l)) items labels
   \<Longrightarrow> medical_tags w (PList items) = Inr (PStr (join_strs '', '' labels))"
  by (simp add: item_labels_labelled str_join_strings)

text \<open>
  Claim C1. In the Medical branch, when the tag extractor returns a list of dicts that
  each carry a string under \<open>"label"\<close>, line 125 collapses the list into the labels
  joined with \<open>", "\<close> in list order, and the prompt sent on is the medical template
  filled with that string. For the list of the two tags \<open>rash\<close> (score 0.9) and
  \<open>erythema\<close> (score 0.7) the string is \<open>rash, erythema\<close> (the witness).
\<close>

theorem medical_tags_comma_joined:
  assumes labelled:
      "list_all2 (\<lambda>item l. \<exists>d. item = PDict d \<and> map_of d ''label'' = Some (PStr l)) items labels"
    and extracted:
      "fst (analyze_image cfg w image_bytes (MEDICAL_MODEL cfg)) = Inr (PList items)"
  shows "medical_tags w (PList items) = Inr (PStr (join_strs '', '' labels)) \<and>
         (\<exists>p. format_template medical_template
                 [(''tags'', join_strs '', '' labels), (''query'', user_query)] = Inr p \<and>
              snd (run_analysis cfg w Medical image_bytes user_query) =
                snd (analyze_image cfg w image_bytes (MEDICAL_MODEL cfg)) @ [Llm_invoke p])"
proof -
  have tags: "medical_tags w (PList items) = Inr (PStr (join_strs '', '' labels))"
    using labelled by (rule medical_tags_labelled)
  obtain evs where run: "analyze_image cfg w image_bytes (MEDICAL_MODEL cfg) = (Inr (PList items), evs)"
    using extracted by (cases "analyze_image cfg w image_bytes (MEDICAL_MODEL cfg)") simp
  obtain p where p: "format_template medical_template
      [(''tags'', join_strs '', '' labels), (''query'', user_query)] = Inr p"
    using format_medical by blast
  then have "format_template medical_template
      [(''tags'', py_str w (PStr (join_strs '', '' labels))), (''query'', user_query)] = Inr p"
    by simp
  from run_analysis_medical [OF run tags this]
  have "snd (run_analysis cfg w Medical image_bytes user_query) = evs @ [Llm_invoke p]"
    by simp
  with tags p run show ?thesis by simp
qed

theorem medical_tags_comma_joined_witness:
  "medical_tags
       (example_world (Inr \<lparr>status_code = 200, json = Inr (PList rash_tags)\<rparr>) (Inr ''It is a rash.''))
       (PList rash_tags) = Inr (PStr ''rash, erythema'') \<and>
     snd (run_analysis example_config
            (example_world (Inr \<lparr>status_code = 200, json = Inr (PList rash_tags)\<rparr>) (Inr ''It is a rash.''))
            Medical ''IMG'' ''What is this?'') =
       [Http_post \<lparr>url = ''https://api-inference.huggingface.co/models/medical-clip'',
                   headers = [(''Authorization'', ''Bearer hf_secret'')],
                   data = ''IMG'', timeout = 30\<rparr>,
        Llm_invoke (''\<newline>    As a medical assistant, analyze these image tags: rash, erythema\<newline>    For this question: What is this?\<newline>\<newline>    Provide:\<newline>    1. 3 possible conditions matching these symptoms\<newline>    2. Recommended diagnostic tests\<newline>    3. Urgency level (Emergency/Urgent/Routine)\<newline>    4. Clear disclaimer\<newline>    \<newline>    Format: Concise bullet points in plain text\<newline>    '')]"
proof -
  let ?w = "example_world (Inr \<lparr>status_code = 200, json = Inr (PList rash_tags)\<rparr>) (Inr ''It is a rash.'')"
  have labelled: "list_all2 (\<lambda>item l. \<exists>d. item = PDict d \<and> map_of d ''label'' = Some (PStr l))
      rash_tags [''rash'', ''erythema'']"
    by (simp add: rash_tags_def)
  have extracted: "fst (analyze_image example_config ?w ''IMG'' (MEDICAL_MODEL example_config))
      = Inr (PList rash_tags)"
    by (simp add: analyze_image_eq example_world_def)
  show "medical_tags ?w (PList rash_tags) = Inr (PStr ''rash, erythema'') \<and>
     snd (run_analysis example_config ?w Medical ''IMG'' ''What is this?'') =
       [Http_post \<lparr>url = ''https://api-inference.huggingface.co/models/medical-clip'',
                   headers = [(''Authorization'', ''Bearer hf_secret'')],
                   data = ''IMG'', timeout = 30\<rparr>,
        Llm_invoke (''\<newline>    As a medical assistant, analyze these image tags: rash, erythema\<newline>    For this question: What is this?\<newline>\<newline>    Provide:\<newline>    1. 3 possible conditions matching these symptoms\<newline>    2. Recommended diagnostic tests\<newline>    3. Urgency level (Emergency/Urgent/Routine)\<newline>    4. Clear disclaimer\<newline>    \<newline>    Format: Concise bullet points in plain text\<newline>    '')]"
    using medical_tags_comma_joined [OF labelled extracted, of "''What is this?''"]
    by (simp add: format_medical analyze_image_eq example_config_def)
qed

subsection \<open>The trace of a submission, by category\<close>

lemma main_block_medical:
  assumes "q \<noteq> []"
    and "analyze_image cfg w img (MEDICAL_MODEL cfg) = (Inr raw_tags, evs)"
    and "medical_tags w raw_tags = Inr tags"
    and "format_template medical_template [(''tags'', py_str w tags), (''query'', q)] = Inr p"
  shows "main_block cfg w Medical (Some img) q =
     [St_image img ''Uploaded Image'', St_spinner ''Analyzing...''] @ evs @ [Llm_invoke p]
       @ (case groq_chat w p of
            Inl e \<Rightarrow> [St_error (''Analysis failed: '' @ exc_str e)]
          | Inr r \<Rightarrow>
              [St_subheader ''Analysis Results'', St_write r,
               St_warning ([CHR 0xE2, CHR 0x9A, CHR 0xA0, CHR 0xEF, CHR 0xB8, CHR 0x8F]
                 @ '' This is not medical advice - Consult a doctor for diagnosis'')])"
proof (cases "groq_chat w p")
  case (Inl e)
  with run_analysis_medical [OF assms(2-4)]
  have "run_analysis cfg w Medical img q = (Inl e, evs @ [Llm_invoke p])" by simp
  from main_block_failed [OF assms(1) this] Inl show ?thesis by simp
next
  case (Inr r)
  with run_analysis_medical [OF assms(2-4)]
  have "run_analysis cfg w Medical img q =
      (Inr (r, [CHR 0xE2, CHR 0x9A, CHR 0xA0, CHR 0xEF, CHR 0xB8, CHR 0x8F]
                 @ '' This is not medical advice - Consult a doctor for diagnosis''),
       evs @ [Llm_invoke p])" by simp
  from main_block_shown [OF assms(1) this] Inr show ?thesis by simp
qed

lemma main_block_medical_raises:
  assumes "q \<noteq> []"
    and "analyze_image cfg w img (MEDICAL_MODEL cfg) = (Inr raw_tags, evs)"
    and "medical_tags w raw_tags = Inl e"
  shows "main_block cfg w Medical (Some img) q =
     [St_image img ''Uploaded Image'', St_spinner ''Analyzing...''] @ evs
       @ [St_error (''Analysis failed: '' @ exc_str e)]"
  using main_block_failed [OF assms(1) run_analysis_medical_raises [OF assms(2,3)]] .

lemma main_block_product:
  assumes "q \<noteq> []"
    and "analyze_image cfg w img (PRODUCT_MODEL cfg) = (Inr analysis, evs)"
    and "format_template product_template
           [(''analysis'', py_str w analysis), (''query'', q)] = Inr p"
  shows "main_block cfg w Product (Some img) q =
     [St_image img ''Uploaded Image'', St_spinner ''Analyzing...''] @ evs @ [Llm_invoke p]
       @ (case groq_chat w p of
            Inl e \<Rightarrow> [St_error (''Analysis failed: '' @ exc_str e)]
          | Inr r \<Rightarrow>
              [St_subheader ''Analysis Results'', St_write r,
               St_warning ([CHR 0xE2, CHR 0x84, CHR 0xB9, CHR 0xEF, CHR 0xB8, CHR 0x8F]
                 @ '' Price estimates are approximate'')])"
proof (cases "groq_chat w p")
  case (Inl e)
  with run_analysis_product [OF assms(2,3)]
  have "run_analysis cfg w Product img q = (Inl e, evs @ [Llm_invoke p])" by simp
  from main_block_failed [OF assms(1) this] Inl show ?thesis by simp
next
  case (Inr r)
  with run_analysis_product [OF assms(2,3)]
  have "run_analysis cfg w Product img q =
      (Inr (r, [CHR 0xE2, CHR 0x84, CHR 0xB9, CHR 0xEF, CHR 0xB8, CHR 0x8F]
                 @ '' Price estimates are approximate''),
       evs @ [Llm_invoke p])" by simp
  from main_block_shown [OF assms(1) this] Inr show ?thesis by simp
qed

lemma main_block_general:
  assumes "q \<noteq> []"
    and "analyze_image cfg w img (GENERAL_MODEL cfg) = (Inr analysis, evs)"
    and "format_template general_template
           [(''analysis'', py_str w analysis), (''query'', q)] = Inr p"
  shows "main_block cfg w General (Some img) q =
     [St_image img ''Uploaded Image'', St_spinner ''Analyzing...''] @ evs @ [Llm_invoke p]
       @ (case groq_chat w p of
            Inl e \<Rightarrow> [St_error (''Analysis failed: '' @ exc_str e)]
          | Inr r \<Rightarrow> [St_subheader ''Analysis Results'', St_write r])"
proof (cases "groq_chat w p")
  case (Inl e)
  with run_analysis_general [OF assms(2,3)]
  have "run_analysis cfg w General img q = (Inl e, evs @ [Llm_invoke p])" by simp
  from main_block_failed [OF assms(1) this] Inl show ?thesis by simp
next
  case (Inr r)
  with run_analysis_general [OF assms(2,3)]
  have "run_analysis cfg w General img q = (Inr (r, []), evs @ [Llm_invoke p])" by simp
  from main_block_shown [OF assms(1) this] Inr show ?thesis by simp
qed

subsection \<open>Failures of tag extraction are absorbed\<close>

lemmas run_defs =
  main_block_def run_analysis_def analyze_image_eq get_medical_response_def
  get_product_response_def get_general_response_def pure_eff_def invoke_llm_def
  show_results_def bind_eff_simps try_except_simps format_medical format_product
  format_general example_world_def example_config_def

text \<open>
  Claim C2. When \<open>requests.post\<close> raises during tag extraction, \<open>analyze_image\<close> does
  not raise: it returns the string \<open>Analysis error: \<close> followed by the exception's
  message, after the one post. For every category the submission goes on: the prompt
  sent to the language model contains that string verbatim, and what follows is the
  result block (with the category's disclaimer) when the model answers, or the failure
  message when the model raises.
\<close>

theorem transport_exception_becomes_analysis_text:
  assumes "user_query \<noteq> []"
    and "model_name = (case category of General \<Rightarrow> GENERAL_MODEL cfg
                        | Medical \<Rightarrow> MEDICAL_MODEL cfg | Product \<Rightarrow> PRODUCT_MODEL cfg)"
    and "req = \<lparr>url = HF_API_URL cfg @ model_name,
                 headers = [(''Authorization'', ''Bearer '' @ HF_TOKEN cfg)],
                 data = image_bytes, timeout = 30\<rparr>"
    and "requests_post w req = Inl e"
  shows "analyze_image cfg w image_bytes model_name =
           (Inr (PStr (''Analysis error: '' @ exc_str e)), [Http_post req]) \<and>
         (\<exists>p d. sublist (''Analysis error: '' @ exc_str e) p \<and>
            main_block cfg w category (Some image_bytes) user_query =
              [St_image image_bytes ''Uploaded Image'', St_spinner ''Analyzing...'',
               Http_post req, Llm_invoke p]
              @ (case groq_chat w p of
                   Inl e' \<Rightarrow> [St_error (''Analysis failed: '' @ exc_str e')]
                 | Inr r \<Rightarrow>
                     [St_subheader ''Analysis Results'', St_write r]
                       @ (if d \<noteq> [] then [St_warning d] else [])))"
proof -
  let ?err = "''Analysis error: '' @ exc_str e"
  have extracted: "analyze_image cfg w image_bytes model_name = (Inr (PStr ?err), [Http_post req])"
    using assms(3,4) by (simp add: analyze_image_eq)
  have inside: "sublist ?err (pre @ ?err @ mid @ user_query @ post)" for pre mid post
    using sublist_appendI [of ?err pre "mid @ user_query @ post"] by simp
  have "\<exists>p d. sublist ?err p \<and>
            main_block cfg w category (Some image_bytes) user_query =
              [St_image image_bytes ''Uploaded Image'', St_spinner ''Analyzing...'',
               Http_post req, Llm_invoke p]
              @ (case groq_chat w p of
                   Inl e' \<Rightarrow> [St_error (''Analysis failed: '' @ exc_str e')]
                 | Inr r \<Rightarrow>
                     [St_subheader ''Analysis Results'', St_write r]
                       @ (if d \<noteq> [] then [St_warning d] else []))"
  proof (cases category)
    case General
    with extracted assms(2)
    have a: "analyze_image cfg w image_bytes (GENERAL_MODEL cfg) = (Inr (PStr ?err), [Http_post req])"
      by simp
    let ?p = "''\<newline>    Analyze image description: '' @ ?err
          @ ''\<newline>    For question: '' @ user_query
          @ ''\<newline>\<newline>    Provide:\<newline>    1. Direct answer\<newline>    2. 3 relevant facts\<newline>    3. Related information\<newline>    \<newline>    Format: Short paragraphs in plain text\<newline>    ''"
    have f: "format_template general_template
        [(''analysis'', py_str w (PStr ?err)), (''query'', user_query)] = Inr ?p"
      unfolding py_str.simps by (rule format_general)
    have s: "sublist ?err ?p" by (rule inside)
    have tr: "main_block cfg w General (Some image_bytes) user_query =
              [St_image image_bytes ''Uploaded Image'', St_spinner ''Analyzing...'',
               Http_post req, Llm_invoke ?p]
              @ (case groq_chat w ?p of
                   Inl e' \<Rightarrow> [St_error (''Analysis failed: '' @ exc_str e')]
                 | Inr r \<Rightarrow>
                     [St_subheader ''Analysis Results'', St_write r]
                       @ (if [] \<noteq> [] then [St_warning ([])] else []))"
      by (simp add: main_block_general [OF assms(1) a f] split: sum.splits)
    show ?thesis
      unfolding General
      by (rule exI [of _ ?p], rule exI [of _ "[]"], rule conjI [OF s tr])
  next
    case Medical
    with extracted assms(2)
    have a: "analyze_image cfg w image_bytes (MEDICAL_MODEL cfg) = (Inr (PStr ?err), [Http_post req])"
      by simp
    have t: "medical_tags w (PStr ?err) = Inr (PStr ?err)" by simp
    let ?p = "''\<newline>    As a medical assistant, analyze these image tags: '' @ ?err
          @ ''\<newline>    For this question: '' @ user_query
          @ ''\<newline>\<newline>    Provide:\<newline>    1. 3 possible conditions matching these symptoms\<newline>    2. Recommended diagnostic tests\<newline>    3. Urgency level (Emergency/Urgent/Routine)\<newline>    4. Clear disclaimer\<newline>    \<newline>    Format: Concise bullet points in plain text\<newline>    ''"
    have f: "format_template medical_template
        [(''tags'', py_str w (PStr ?err)), (''query'', user_query)] = Inr ?p"
      unfolding py_str.simps by (rule format_medical)
    have s: "sublist ?err ?p" by (rule inside)
    have tr: "main_block cfg w Medical (Some image_bytes) user_query =
              [St_image image_bytes ''Uploaded Image'', St_spinner ''Analyzing...'',
               Http_post req, Llm_invoke ?p]
              @ (case groq_chat w ?p of
                   Inl e' \<Rightarrow> [St_error (''Analysis failed: '' @ exc_str e')]
                 | Inr r \<Rightarrow>
                     [St_subheader ''Analysis Results'', St_write r]
                       @ (if [CHR 0xE2, CHR 0x9A, CHR 0xA0, CHR 0xEF, CHR 0xB8, CHR 0x8F] @ '' This is not medical advice - Consult a doctor for diagnosis'' \<noteq> [] then [St_warning ([CHR 0xE2, CHR 0x9A, CHR 0xA0, CHR 0xEF, CHR 0xB8, CHR 0x8F] @ '' This is not medical advice - Consult a doctor for diagnosis'')] else []))"
      by (simp add: main_block_medical [OF assms(1) a t f] split: sum.splits)
    show ?thesis
      unfolding Medical
      by (rule exI [of _ ?p], rule exI [of _ "[CHR 0xE2, CHR 0x9A, CHR 0xA0, CHR 0xEF, CHR 0xB8, CHR 0x8F] @ '' This is not medical advice - Consult a doctor for diagnosis''"], rule conjI [OF s tr])
  next
    case Product
    with extracted assms(2)
    have a: "analyze_image cfg w image_bytes (PRODUCT_MODEL cfg) = (Inr (PStr ?err), [Http_post req])"
      by simp
    let ?p = "''\<newline>    Analyze product features: '' @ ?err
          @ ''\<newline>    For query: '' @ user_query
          @ ''\<newline>\<newline>    Provide:\<newline>    1. Product identification\<newline>    2. Price estimate range (USD)\<newline>    3. 3 fictional purchase options\<newline>    4. Alternative suggestions\<newline>    \<newline>    Format: Simple text with line breaks\<newline>    ''"
    have f: "format_template product_template
        [(''analysis'', py_str w (PStr ?err)), (''query'', user_query)] = Inr ?p"
      unfolding py_str.simps by (rule format_product)
    have s: "sublist ?err ?p" by (rule inside)
    have tr: "main_block cfg w Product (Some image_bytes) user_query =
              [St_image image_bytes ''Uploaded Image'', St_spinner ''Analyzing...'',
               Http_post req, Llm_invoke ?p]
              @ (case groq_chat w ?p of
                   Inl e' \<Rightarrow> [St_error (''Analysis failed: '' @ exc_str e')]
                 | Inr r \<Rightarrow>
                     [St_subheader ''Analysis Results'', St_write r]
                       @ (if [CHR 0xE2, CHR 0x84, CHR 0xB9, CHR 0xEF, CHR 0xB8, CHR 0x8F] @ '' Price estimates are approximate'' \<noteq> [] then [St_warning ([CHR 0xE2, CHR 0x84, CHR 0xB9, CHR 0xEF, CHR 0xB8, CHR 0x8F] @ '' Price estimates are approximate'')] else []))"
      by (simp add: main_block_product [OF assms(1) a f] split: sum.splits)
    show ?thesis
      unfolding Product
      by (rule exI [of _ ?p], rule exI [of _ "[CHR 0xE2, CHR 0x84, CHR 0xB9, CHR 0xEF, CHR 0xB8, CHR 0x8F] @ '' Price estimates are approximate''"], rule conjI [OF s tr])
  qed
  with extracted show ?thesis by simp
qed

theorem transport_exception_becomes_analysis_text_witness:
  "main_block example_config
       (example_world (Inl (PyException ''ConnectTimeout'' ''timed out'')) (Inr ''Cannot tell.''))
       Product (Some ''IMG'') ''How much?'' =
     [St_image ''IMG'' ''Uploaded Image'', St_spinner ''Analyzing...'',
      Http_post \<lparr>url = ''https://api-inference.huggingface.co/models/product-vit'',
                 headers = [(''Authorization'', ''Bearer hf_secret'')],
                 data = ''IMG'', timeout = 30\<rparr>,
      Llm_invoke ''\<newline>    Analyze product features: Analysis error: timed out\<newline>    For query: How much?\<newline>\<newline>    Provide:\<newline>    1. Product identification\<newline>    2. Price estimate range (USD)\<newline>    3. 3 fictional purchase options\<newline>    4. Alternative suggestions\<newline>    \<newline>    Format: Simple text with line breaks\<newline>    '',
      St_subheader ''Analysis Results'', St_write ''Cannot tell.'',
      St_warning ([CHR 0xE2, CHR 0x84, CHR 0xB9, CHR 0xEF, CHR 0xB8, CHR 0x8F]
                    @ '' Price estimates are approximate'')]"
proof -
  let ?w = "example_world (Inl (PyException ''ConnectTimeout'' ''timed out'')) (Inr ''Cannot tell.'')"
  let ?req = "\<lparr>url = HF_API_URL example_config @ ''product-vit'',
                 headers = [(''Authorization'', ''Bearer '' @ HF_TOKEN example_config)],
                 data = ''IMG'', timeout = 30\<rparr>"
  have q: "''How much?'' \<noteq> []" by simp
  have m: "''product-vit'' = (case Product of General \<Rightarrow> GENERAL_MODEL example_config
             | Medical \<Rightarrow> MEDICAL_MODEL example_config | Product \<Rightarrow> PRODUCT_MODEL example_config)"
    by (simp add: example_config_def)
  have r: "requests_post ?w ?req = Inl (PyException ''ConnectTimeout'' ''timed out'')"
    by (simp add: example_world_def)
  from transport_exception_becomes_analysis_text [OF q m refl r]
  obtain p d where
    "main_block example_config ?w Product (Some ''IMG'') ''How much?'' =
       [St_image ''IMG'' ''Uploaded Image'', St_spinner ''Analyzing...'', Http_post ?req, Llm_invoke p]
       @ (case groq_chat ?w p of
            Inl e' \<Rightarrow> [St_error (''Analysis failed: '' @ exc_str e')]
          | Inr r \<Rightarrow> [St_subheader ''Analysis Results'', St_write r]
                       @ (if d \<noteq> [] then [St_warning d] else []))"
    by blast
  then show "main_block example_config ?w Product (Some ''IMG'') ''How much?'' =
     [St_image ''IMG'' ''Uploaded Image'', St_spinner ''Analyzing...'',
      Http_post \<lparr>url = ''https://api-inference.huggingface.co/models/product-vit'',
                 headers = [(''Authorization'', ''Bearer hf_secret'')],
                 data = ''IMG'', timeout = 30\<rparr>,
      Llm_invoke ''\<newline>    Analyze product features: Analysis error: timed out\<newline>    For query: How much?\<newline>\<newline>    Provide:\<newline>    1. Product identification\<newline>    2. Price estimate range (USD)\<newline>    3. 3 fictional purchase options\<newline>    4. Alternative suggestions\<newline>    \<newline>    Format: Simple text with line breaks\<newline>    '',
      St_subheader ''Analysis Results'', St_write ''Cannot tell.'',
      St_warning ([CHR 0xE2, CHR 0x84, CHR 0xB9, CHR 0xEF, CHR 0xB8, CHR 0x8F]
                    @ '' Price estimates are approximate'')]"
    by (simp add: run_defs)
qed

lemma py_str_empty_list: "py_str w (PList []) = ''[]''"
  by simp

text \<open>
  Claim C3. When the response to the tag-extraction post has a status other than 200,
  \<open>analyze_image\<close> returns the empty list (a value, no exception, and the body is never
  decoded). For every category the submission goes on to the language model: the prompt
  is the category's template filled with the empty string (Medical, the join of no
  labels) or with \<open>[]\<close> (Product and General, \<open>str\<close> of the empty list) and the query.
\<close>

theorem non_200_degrades_to_empty_tags:
  assumes "user_query \<noteq> []"
    and "model_name = (case category of General \<Rightarrow> GENERAL_MODEL cfg
                        | Medical \<Rightarrow> MEDICAL_MODEL cfg | Product \<Rightarrow> PRODUCT_MODEL cfg)"
    and "req = \<lparr>url = HF_API_URL cfg @ model_name,
                 headers = [(''Authorization'', ''Bearer '' @ HF_TOKEN cfg)],
                 data = image_bytes, timeout = 30\<rparr>"
    and "requests_post w req = Inr response"
    and "status_code response \<noteq> 200"
  shows "analyze_image cfg w image_bytes model_name = (Inr (PList []), [Http_post req]) \<and>
         (\<exists>p d.
            format_template
              (case category of General \<Rightarrow> general_template
                 | Medical \<Rightarrow> medical_template | Product \<Rightarrow> product_template)
              [(case category of General \<Rightarrow> (''analysis'', ''[]'')
                  | Medical \<Rightarrow> (''tags'', []) | Product \<Rightarrow> (''analysis'', ''[]'')),
               (''query'', user_query)] = Inr p \<and>
            main_block cfg w category (Some image_bytes) user_query =
              [St_image image_bytes ''Uploaded Image'', St_spinner ''Analyzing...'',
               Http_post req, Llm_invoke p]
              @ (case groq_chat w p of
                   Inl e' \<Rightarrow> [St_error (''Analysis failed: '' @ exc_str e')]
                 | Inr r \<Rightarrow>
                     [St_subheader ''Analysis Results'', St_write r]
                       @ (if d \<noteq> [] then [St_warning d] else [])))"
proof -
  have extracted: "analyze_image cfg w image_bytes model_name = (Inr (PList []), [Http_post req])"
    using assms(3-5) by (simp add: analyze_image_eq)
  have "\<exists>p d.
            format_template
              (case category of General \<Rightarrow> general_template
                 | Medical \<Rightarrow> medical_template | Product \<Rightarrow> product_template)
              [(case category of General \<Rightarrow> (''analysis'', ''[]'')
                  | Medical \<Rightarrow> (''tags'', []) | Product \<Rightarrow> (''analysis'', ''[]'')),
               (''query'', user_query)] = Inr p \<and>
            main_block cfg w category (Some image_bytes) user_query =
              [St_image image_bytes ''Uploaded Image'', St_spinner ''Analyzing...'',
               Http_post req, Llm_invoke p]
              @ (case groq_chat w p of
                   Inl e' \<Rightarrow> [St_error (''Analysis failed: '' @ exc_str e')]
                 | Inr r \<Rightarrow>
                     [St_subheader ''Analysis Results'', St_write r]
                       @ (if d \<noteq> [] then [St_warning d] else []))"
  proof (cases category)
    case General
    with extracted assms(2)
    have a: "analyze_image cfg w image_bytes (GENERAL_MODEL cfg) = (Inr (PList []), [Http_post req])"
      by simp
    obtain p where f: "format_template general_template
        [(''analysis'', ''[]''), (''query'', user_query)] = Inr p"
      using format_general by blast
    then have f': "format_template general_template
        [(''analysis'', py_str w (PList [])), (''query'', user_query)] = Inr p"
      by (simp only: py_str_empty_list)
    have tr: "main_block cfg w General (Some image_bytes) user_query =
              [St_image image_bytes ''Uploaded Image'', St_spinner ''Analyzing...'',
               Http_post req, Llm_invoke p]
              @ (case groq_chat w p of
                   Inl e' \<Rightarrow> [St_error (''Analysis failed: '' @ exc_str e')]
                 | Inr r \<Rightarrow>
                     [St_subheader ''Analysis Results'', St_write r]
                       @ (if [] \<noteq> [] then [St_warning []] else []))"
      by (simp add: main_block_general [OF assms(1) a f'] split: sum.splits)
    show ?thesis
      unfolding General category.case
      by (rule exI [of _ p], rule exI [of _ "[]"], rule conjI [OF f tr])
  next
    case Medical
    with extracted assms(2)
    have a: "analyze_image cfg w image_bytes (MEDICAL_MODEL cfg) = (Inr (PList []), [Http_post req])"
      by simp
    have t: "medical_tags w (PList []) = Inr (PStr [])" by simp
    obtain p where f: "format_template medical_template
        [(''tags'', []), (''query'', user_query)] = Inr p"
      using format_medical by blast
    then have f': "format_template medical_template
        [(''tags'', py_str w (PStr [])), (''query'', user_query)] = Inr p"
      by (simp only: py_str.simps)
    let ?d = "[CHR 0xE2, CHR 0x9A, CHR 0xA0, CHR 0xEF, CHR 0xB8, CHR 0x8F]
                 @ '' This is not medical advice - Consult a doctor for diagnosis''"
    have tr: "main_block cfg w Medical (Some image_bytes) user_query =
              [St_image image_bytes ''Uploaded Image'', St_spinner ''Analyzing...'',
               Http_post req, Llm_invoke p]
              @ (case groq_chat w p of
                   Inl e' \<Rightarrow> [St_error (''Analysis failed: '' @ exc_str e')]
                 | Inr r \<Rightarrow>
                     [St_subheader ''Analysis Results'', St_write r]
                       @ (if ?d \<noteq> [] then [St_warning ?d] else []))"
      by (simp add: main_block_medical [OF assms(1) a t f'] split: sum.splits)
    show ?thesis
      unfolding Medical category.case
      by (rule exI [of _ p], rule exI [of _ ?d], rule conjI [OF f tr])
  next
    case Product
    with extracted assms(2)
    have a: "analyze_image cfg w image_bytes (PRODUCT_MODEL cfg) = (Inr (PList []), [Http_post req])"
      by simp
    obtain p where f: "format_template product_template
        [(''analysis'', ''[]''), (''query'', user_query)] = Inr p"
      using format_product by blast
    then have f': "format_template product_template
        [(''analysis'', py_str w (PList [])), (''query'', user_query)] = Inr p"
      by (simp only: py_str_empty_list)
    let ?d = "[CHR 0xE2, CHR 0x84, CHR 0xB9, CHR 0xEF, CHR 0xB8, CHR 0x8F]
                 @ '' Price estimates are approximate''"
    have tr: "main_block cfg w Product (Some image_bytes) user_query =
              [St_image image_bytes ''Uploaded Image'', St_spinner ''Analyzing...'',
               Http_post req, Llm_invoke p]
              @ (case groq_chat w p of
                   Inl e' \<Rightarrow> [St_error (''Analysis failed: '' @ exc_str e')]
                 | Inr r \<Rightarrow>
                     [St_subheader ''Analysis Results'', St_write r]
                       @ (if ?d \<noteq> [] then [St_warning ?d] else []))"
      by (simp add: main_block_product [OF assms(1) a f'] split: sum.splits)
    show ?thesis
      unfolding Product category.case
      by (rule exI [of _ p], rule exI [of _ ?d], rule conjI [OF f tr])
  qed
  with extracted show ?thesis by simp
qed

theorem non_200_degrades_to_empty_tags_witness:
  "main_block example_config
       (example_world (Inr unavailable_response) (Inr ''No findings.''))
       Medical (Some ''IMG'') ''Is it serious?'' =
     [St_image ''IMG'' ''Uploaded Image'', St_spinner ''Analyzing...'',
      Http_post \<lparr>url = ''https://api-inference.huggingface.co/models/medical-clip'',
                 headers = [(''Authorization'', ''Bearer hf_secret'')],
                 data = ''IMG'', timeout = 30\<rparr>,
      Llm_invoke ''\<newline>    As a medical assistant, analyze these image tags: \<newline>    For this question: Is it serious?\<newline>\<newline>    Provide:\<newline>    1. 3 possible conditions matching these symptoms\<newline>    2. Recommended diagnostic tests\<newline>    3. Urgency level (Emergency/Urgent/Routine)\<newline>    4. Clear disclaimer\<newline>    \<newline>    Format: Concise bullet points in plain text\<newline>    '',
      St_subheader ''Analysis Results'', St_write ''No findings.'',
      St_warning ([CHR 0xE2, CHR 0x9A, CHR 0xA0, CHR 0xEF, CHR 0xB8, CHR 0x8F]
                    @ '' This is not medical advice - Consult a doctor for diagnosis'')]"
proof -
  let ?w = "example_world (Inr unavailable_response) (Inr ''No findings.'')"
  let ?req = "\<lparr>url = HF_API_URL example_config @ ''medical-clip'',
                 headers = [(''Authorization'', ''Bearer '' @ HF_TOKEN example_config)],
                 data = ''IMG'', timeout = 30\<rparr>"
  have q: "''Is it serious?'' \<noteq> []" by simp
  have m: "''medical-clip'' = (case Medical of General \<Rightarrow> GENERAL_MODEL example_config
             | Medical \<Rightarrow> MEDICAL_MODEL example_config | Product \<Rightarrow> PRODUCT_MODEL example_config)"
    by (simp add: example_config_def)
  have r: "requests_post ?w ?req = Inr unavailable_response"
    by (simp add: example_world_def)
  have s: "status_code unavailable_response \<noteq> 200"
    by (simp add: unavailable_response_def)
  from non_200_degrades_to_empty_tags [OF q m refl r s]
  obtain p d where
    "main_block example_config ?w Medical (Some ''IMG'') ''Is it serious?'' =
       [St_image ''IMG'' ''Uploaded Image'', St_spinner ''Analyzing...'', Http_post ?req, Llm_invoke p]
       @ (case groq_chat ?w p of
            Inl e' \<Rightarrow> [St_error (''Analysis failed: '' @ exc_str e')]
          | Inr r \<Rightarrow> [St_subheader ''Analysis Results'', St_write r]
                       @ (if d \<noteq> [] then [St_warning d] else []))"
    by blast
  then show "main_block example_config ?w Medical (Some ''IMG'') ''Is it serious?'' =
     [St_image ''IMG'' ''Uploaded Image'', St_spinner ''Analyzing...'',
      Http_post \<lparr>url = ''https://api-inference.huggingface.co/models/medical-clip'',
                 headers = [(''Authorization'', ''Bearer hf_secret'')],
                 data = ''IMG'', timeout = 30\<rparr>,
      Llm_invoke ''\<newline>    As a medical assistant, analyze these image tags: \<newline>    For this question: Is it serious?\<newline>\<newline>    Provide:\<newline>    1. 3 possible conditions matching these symptoms\<newline>    2. Recommended diagnostic tests\<newline>    3. Urgency level (Emergency/Urgent/Routine)\<newline>    4. Clear disclaimer\<newline>    \<newline>    Format: Concise bullet points in plain text\<newline>    '',
      St_subheader ''Analysis Results'', St_write ''No findings.'',
      St_warning ([CHR 0xE2, CHR 0x9A, CHR 0xA0, CHR 0xEF, CHR 0xB8, CHR 0x8F]
                    @ '' This is not medical advice - Consult a doctor for diagnosis'')]"
    by (simp add: run_defs unavailable_response_def)
qed

subsection \<open>A failing language model fails the submission\<close>

lemma main_block_cases:
  assumes "q \<noteq> []"
    and "req = \<lparr>url = HF_API_URL cfg @ (case category of General \<Rightarrow> GENERAL_MODEL cfg
                        | Medical \<Rightarrow> MEDICAL_MODEL cfg | Product \<Rightarrow> PRODUCT_MODEL cfg),
                 headers = [(''Authorization'', ''Bearer '' @ HF_TOKEN cfg)],
                 data = img, timeout = 30\<rparr>"
  shows "(\<exists>e. main_block cfg w category (Some img) q =
            [St_image img ''Uploaded Image'', St_spinner ''Analyzing...'', Http_post req,
             St_error (''Analysis failed: '' @ exc_str e)]) \<or>
         (\<exists>p d. main_block cfg w category (Some img) q =
            [St_image img ''Uploaded Image'', St_spinner ''Analyzing...'', Http_post req,
             Llm_invoke p]
            @ (case groq_chat w p of
                 Inl e \<Rightarrow> [St_error (''Analysis failed: '' @ exc_str e)]
               | Inr r \<Rightarrow>
                   [St_subheader ''Analysis Results'', St_write r]
                     @ (if d \<noteq> [] then [St_warning d] else [])))"
proof (cases category)
  case General
  obtain v where a: "analyze_image cfg w img (GENERAL_MODEL cfg) = (Inr v, [Http_post req])"
    using analyze_image_total [of cfg w img "GENERAL_MODEL cfg"] assms(2) General by auto
  obtain p where f: "format_template general_template
      [(''analysis'', py_str w v), (''query'', q)] = Inr p"
    using format_general by blast
  have "main_block cfg w category (Some img) q =
            [St_image img ''Uploaded Image'', St_spinner ''Analyzing...'', Http_post req,
             Llm_invoke p]
            @ (case groq_chat w p of
                 Inl e \<Rightarrow> [St_error (''Analysis failed: '' @ exc_str e)]
               | Inr r \<Rightarrow>
                   [St_subheader ''Analysis Results'', St_write r]
                     @ (if [] \<noteq> [] then [St_warning []] else []))"
    unfolding General by (simp add: main_block_general [OF assms(1) a f] split: sum.splits)
  then show ?thesis by blast
next
  case Medical
  obtain v where a: "analyze_image cfg w img (MEDICAL_MODEL cfg) = (Inr v, [Http_post req])"
    using analyze_image_total [of cfg w img "MEDICAL_MODEL cfg"] assms(2) Medical by auto
  show ?thesis
  proof (cases "medical_tags w v")
    case (Inl e)
    have "main_block cfg w category (Some img) q =
            [St_image img ''Uploaded Image'', St_spinner ''Analyzing...'', Http_post req,
             St_error (''Analysis failed: '' @ exc_str e)]"
      unfolding Medical by (simp add: main_block_medical_raises [OF assms(1) a Inl])
    then show ?thesis by blast
  next
    case (Inr tags)
    obtain p where f: "format_template medical_template
        [(''tags'', py_str w tags), (''query'', q)] = Inr p"
      using format_medical by blast
    let ?d = "[CHR 0xE2, CHR 0x9A, CHR 0xA0, CHR 0xEF, CHR 0xB8, CHR 0x8F]
                 @ '' This is not medical advice - Consult a doctor for diagnosis''"
    have "main_block cfg w category (Some img) q =
            [St_image img ''Uploaded Image'', St_spinner ''Analyzing...'', Http_post req,
             Llm_invoke p]
            @ (case groq_chat w p of
                 Inl e \<Rightarrow> [St_error (''Analysis failed: '' @ exc_str e)]
               | Inr r \<Rightarrow>
                   [St_subheader ''Analysis Results'', St_write r]
                     @ (if ?d \<noteq> [] then [St_warning ?d] else []))"
      unfolding Medical by (simp add: main_block_medical [OF assms(1) a Inr f] split: sum.splits)
    then show ?thesis by blast
  qed
next
  case Product
  obtain v where a: "analyze_image cfg w img (PRODUCT_MODEL cfg) = (Inr v, [Http_post req])"
    using analyze_image_total [of cfg w img "PRODUCT_MODEL cfg"] assms(2) Product by auto
  obtain p where f: "format_template product_template
      [(''analysis'', py_str w v), (''query'', q)] = Inr p"
    using format_product by blast
  let ?d = "[CHR 0xE2, CHR 0x84, CHR 0xB9, CHR 0xEF, CHR 0xB8, CHR 0x8F]
                 @ '' Price estimates are approximate''"
  have "main_block cfg w category (Some img) q =
            [St_image img ''Uploaded Image'', St_spinner ''Analyzing...'', Http_post req,
             Llm_invoke p]
            @ (case groq_chat w p of
                 Inl e \<Rightarrow> [St_error (''Analysis failed: '' @ exc_str e)]
               | Inr r \<Rightarrow>
                   [St_subheader ''Analysis Results'', St_write r]
                     @ (if ?d \<noteq> [] then [St_warning ?d] else []))"
    unfolding Product by (simp add: main_block_product [OF assms(1) a f] split: sum.splits)
  then show ?thesis by blast
qed

text \<open>
  Claim C4. If a submission reaches the language model with prompt \<open>p\<close> and that call
  raises \<open>e\<close>, the exception is caught by the one \<open>except\<close> of the page: after the image,
  the spinner, the post and the model call, the only thing shown is the single message
  \<open>Analysis failed: \<close> followed by \<open>str(e)\<close>. No results heading, no result text and no
  disclaimer are displayed.
\<close>

theorem generation_failure_shows_only_error:
  assumes "user_query \<noteq> []"
    and "Llm_invoke p \<in> set (main_block cfg w category (Some image_bytes) user_query)"
    and "groq_chat w p = Inl e"
  shows "\<exists>req. main_block cfg w category (Some image_bytes) user_query =
           [St_image image_bytes ''Uploaded Image'', St_spinner ''Analyzing...'',
            Http_post req, Llm_invoke p, St_error (''Analysis failed: '' @ exc_str e)]"
proof -
  let ?req = "\<lparr>url = HF_API_URL cfg @ (case category of General \<Rightarrow> GENERAL_MODEL cfg
                        | Medical \<Rightarrow> MEDICAL_MODEL cfg | Product \<Rightarrow> PRODUCT_MODEL cfg),
                 headers = [(''Authorization'', ''Bearer '' @ HF_TOKEN cfg)],
                 data = image_bytes, timeout = 30\<rparr>"
  from main_block_cases [OF assms(1) refl, where cfg = cfg and category = category and img = image_bytes and w = w]
  consider (raised) e' where "main_block cfg w category (Some image_bytes) user_query =
            [St_image image_bytes ''Uploaded Image'', St_spinner ''Analyzing...'', Http_post ?req,
             St_error (''Analysis failed: '' @ exc_str e')]"
    | (generated) p' d where "main_block cfg w category (Some image_bytes) user_query =
            [St_image image_bytes ''Uploaded Image'', St_spinner ''Analyzing...'', Http_post ?req,
             Llm_invoke p']
            @ (case groq_chat w p' of
                 Inl e \<Rightarrow> [St_error (''Analysis failed: '' @ exc_str e)]
               | Inr r \<Rightarrow>
                   [St_subheader ''Analysis Results'', St_write r]
                     @ (if d \<noteq> [] then [St_warning d] else []))"
    by blast
  then show ?thesis
  proof cases
    case raised
    with assms(2) show ?thesis by simp
  next
    case generated
    with assms(2) have "p' = p" by (auto split: sum.splits if_splits)
    with generated assms(3) show ?thesis by simp
  qed
qed

theorem generation_failure_shows_only_error_witness:
  "main_block example_config
       (example_world (Inr \<lparr>status_code = 200, json = Inr (PList rash_tags)\<rparr>)
          (Inl (PyException ''APIConnectionError'' ''Connection error.'')))
       Medical (Some ''IMG'') ''What is this?'' =
     [St_image ''IMG'' ''Uploaded Image'', St_spinner ''Analyzing...'',
      Http_post \<lparr>url = ''https://api-inference.huggingface.co/models/medical-clip'',
                 headers = [(''Authorization'', ''Bearer hf_secret'')],
                 data = ''IMG'', timeout = 30\<rparr>,
      Llm_invoke ''\<newline>    As a medical assistant, analyze these image tags: rash, erythema\<newline>    For this question: What is this?\<newline>\<newline>    Provide:\<newline>    1. 3 possible conditions matching these symptoms\<newline>    2. Recommended diagnostic tests\<newline>    3. Urgency level (Emergency/Urgent/Routine)\<newline>    4. Clear disclaimer\<newline>    \<newline>    Format: Concise bullet points in plain text\<newline>    '',
      St_error ''Analysis failed: Connection error.'']"
proof -
  let ?w = "example_world (Inr \<lparr>status_code = 200, json = Inr (PList rash_tags)\<rparr>)
          (Inl (PyException ''APIConnectionError'' ''Connection error.''))"
  let ?p = "''\<newline>    As a medical assistant, analyze these image tags: rash, erythema\<newline>    For this question: What is this?\<newline>\<newline>    Provide:\<newline>    1. 3 possible conditions matching these symptoms\<newline>    2. Recommended diagnostic tests\<newline>    3. Urgency level (Emergency/Urgent/Routine)\<newline>    4. Clear disclaimer\<newline>    \<newline>    Format: Concise bullet points in plain text\<newline>    ''"
  have q: "''What is this?'' \<noteq> []" by simp
  have sent: "Llm_invoke ?p \<in> set (main_block example_config ?w Medical (Some ''IMG'') ''What is this?'')"
    by (simp add: run_defs rash_tags_def)
  have g: "groq_chat ?w ?p = Inl (PyException ''APIConnectionError'' ''Connection error.'')"
    by (simp add: example_world_def)
  from generation_failure_shows_only_error [OF q sent g]
  obtain req where tr: "main_block example_config ?w Medical (Some ''IMG'') ''What is this?'' =
      [St_image ''IMG'' ''Uploaded Image'', St_spinner ''Analyzing...'', Http_post req,
       Llm_invoke ?p, St_error (''Analysis failed: ''
          @ exc_str (PyException ''APIConnectionError'' ''Connection error.''))]"
    by blast
  have "Http_post \<lparr>url = ''https://api-inference.huggingface.co/models/medical-clip'',
                 headers = [(''Authorization'', ''Bearer hf_secret'')],
                 data = ''IMG'', timeout = 30\<rparr>
          \<in> set (main_block example_config ?w Medical (Some ''IMG'') ''What is this?'')"
    by (simp add: run_defs rash_tags_def)
  with tr have "req = \<lparr>url = ''https://api-inference.huggingface.co/models/medical-clip'',
                 headers = [(''Authorization'', ''Bearer hf_secret'')],
                 data = ''IMG'', timeout = 30\<rparr>"
    by simp
  with tr show "main_block example_config ?w Medical (Some ''IMG'') ''What is this?'' =
     [St_image ''IMG'' ''Uploaded Image'', St_spinner ''Analyzing...'',
      Http_post \<lparr>url = ''https://api-inference.huggingface.co/models/medical-clip'',
                 headers = [(''Authorization'', ''Bearer hf_secret'')],
                 data = ''IMG'', timeout = 30\<rparr>,
      Llm_invoke ?p, St_error ''Analysis failed: Connection error.'']"
    by simp
qed

subsection \<open>Prompts, requests and incomplete input\<close>

lemma sublist_slots:
  "sublist a (xs @ a @ ys @ q @ zs)" "sublist q (xs @ a @ ys @ q @ zs)"
proof -
  show "sublist a (xs @ a @ ys @ q @ zs)" by (rule sublist_appendI)
  have "sublist q ((xs @ a @ ys) @ q @ zs)" by (rule sublist_appendI)
  then show "sublist q (xs @ a @ ys @ q @ zs)" by simp
qed

text \<open>
  Claim C5. For each of the three response functions, and for every analysis value and
  every query, formatting the template succeeds, the formatted prompt is what is sent to
  the model, and it contains both the analysis text (\<open>str\<close> of the tags for Medical,
  possibly empty) and the query as contiguous substrings.
\<close>

theorem prompts_contain_analysis_and_query:
  "(\<exists>p. format_template medical_template
            [(''tags'', py_str w tags), (''query'', query)] = Inr p \<and>
        get_medical_response w tags query = (groq_chat w p, [Llm_invoke p]) \<and>
        sublist (py_str w tags) p \<and> sublist query p) \<and>
   (\<exists>p. format_template product_template
            [(''analysis'', analysis), (''query'', query)] = Inr p \<and>
        get_product_response w analysis query = (groq_chat w p, [Llm_invoke p]) \<and>
        sublist analysis p \<and> sublist query p) \<and>
   (\<exists>p. format_template general_template
            [(''analysis'', analysis), (''query'', query)] = Inr p \<and>
        get_general_response w analysis query = (groq_chat w p, [Llm_invoke p]) \<and>
        sublist analysis p \<and> sublist query p)"
proof (intro conjI)
  show "\<exists>p. format_template medical_template
            [(''tags'', py_str w tags), (''query'', query)] = Inr p \<and>
        get_medical_response w tags query = (groq_chat w p, [Llm_invoke p]) \<and>
        sublist (py_str w tags) p \<and> sublist query p"
    using format_medical get_medical_response_eq [OF format_medical] sublist_slots
    by blast
  show "\<exists>p. format_template product_template
            [(''analysis'', analysis), (''query'', query)] = Inr p \<and>
        get_product_response w analysis query = (groq_chat w p, [Llm_invoke p]) \<and>
        sublist analysis p \<and> sublist query p"
    using format_product get_product_response_eq [OF format_product] sublist_slots
    by blast
  show "\<exists>p. format_template general_template
            [(''analysis'', analysis), (''query'', query)] = Inr p \<and>
        get_general_response w analysis query = (groq_chat w p, [Llm_invoke p]) \<and>
        sublist analysis p \<and> sublist query p"
    using format_general get_general_response_eq [OF format_general] sublist_slots
    by blast
qed

text \<open>
  Claim C9. A submission with an image and a non-empty query makes exactly one HTTP
  post: to the base URL followed by the model identifier of the chosen category, with
  the header \<open>Authorization: Bearer <token>\<close>, the image bytes as body and a timeout of
  30. Every call of \<open>analyze_image\<close> makes exactly that one post for its model, whatever
  the outcome.
\<close>

theorem tag_request_is_one_bearer_post:
  assumes "user_query \<noteq> []"
  shows "[req. Http_post req \<leftarrow> main_block cfg w category (Some image_bytes) user_query] =
           [\<lparr>url = HF_API_URL cfg @ (case category of General \<Rightarrow> GENERAL_MODEL cfg
                        | Medical \<Rightarrow> MEDICAL_MODEL cfg | Product \<Rightarrow> PRODUCT_MODEL cfg),
             headers = [(''Authorization'', ''Bearer '' @ HF_TOKEN cfg)],
             data = image_bytes, timeout = 30\<rparr>] \<and>
         snd (analyze_image cfg w image_bytes model_name) =
           [Http_post \<lparr>url = HF_API_URL cfg @ model_name,
              headers = [(''Authorization'', ''Bearer '' @ HF_TOKEN cfg)],
              data = image_bytes, timeout = 30\<rparr>]"
proof -
  let ?req = "\<lparr>url = HF_API_URL cfg @ (case category of General \<Rightarrow> GENERAL_MODEL cfg
                        | Medical \<Rightarrow> MEDICAL_MODEL cfg | Product \<Rightarrow> PRODUCT_MODEL cfg),
                 headers = [(''Authorization'', ''Bearer '' @ HF_TOKEN cfg)],
                 data = image_bytes, timeout = 30\<rparr>"
  from main_block_cases [OF assms(1) refl, where cfg = cfg and category = category
      and img = image_bytes and w = w]
  consider (raised) e where "main_block cfg w category (Some image_bytes) user_query =
            [St_image image_bytes ''Uploaded Image'', St_spinner ''Analyzing...'', Http_post ?req,
             St_error (''Analysis failed: '' @ exc_str e)]"
    | (generated) p d where "main_block cfg w category (Some image_bytes) user_query =
            [St_image image_bytes ''Uploaded Image'', St_spinner ''Analyzing...'', Http_post ?req,
             Llm_invoke p]
            @ (case groq_chat w p of
                 Inl e \<Rightarrow> [St_error (''Analysis failed: '' @ exc_str e)]
               | Inr r \<Rightarrow>
                   [St_subheader ''Analysis Results'', St_write r]
                     @ (if d \<noteq> [] then [St_warning d] else []))"
    by blast
  then have "[req. Http_post req \<leftarrow> main_block cfg w category (Some image_bytes) user_query] = [?req]"
  proof cases
    case raised
    then show ?thesis by simp
  next
    case generated
    then show ?thesis by (cases "groq_chat w p"; cases "d = []") simp_all
  qed
  then show ?thesis by (simp add: analyze_image_eq)
qed

theorem tag_request_is_one_bearer_post_witness:
  "[req. Http_post req \<leftarrow>
        main_block example_config
          (example_world (Inr \<lparr>status_code = 200, json = Inr (PList rash_tags)\<rparr>)
             (Inr ''It is a rash.''))
          Medical (Some ''IMG'') ''What is this?''] =
       [\<lparr>url = ''https://api-inference.huggingface.co/models/medical-clip'',
         headers = [(''Authorization'', ''Bearer hf_secret'')],
         data = ''IMG'', timeout = 30\<rparr>]"
proof -
  have q: "''What is this?'' \<noteq> []" by simp
  show "[req. Http_post req \<leftarrow>
        main_block example_config
          (example_world (Inr \<lparr>status_code = 200, json = Inr (PList rash_tags)\<rparr>)
             (Inr ''It is a rash.''))
          Medical (Some ''IMG'') ''What is this?''] =
       [\<lparr>url = ''https://api-inference.huggingface.co/models/medical-clip'',
         headers = [(''Authorization'', ''Bearer hf_secret'')],
         data = ''IMG'', timeout = 30\<rparr>]"
    using tag_request_is_one_bearer_post [OF q, of example_config _ Medical "''IMG''"]
    by (simp add: example_config_def)
qed

text \<open>
  Claim C8. When no file is uploaded or the query is empty, the block of lines 116 to
  146 does nothing: the run of the script consists of the static page (header widgets and
  sidebar) only, with no HTTP post, no model call, no image echo, no result, no
  disclaimer and no error message.
\<close>

theorem incomplete_input_is_a_no_op:
  assumes "uploaded_file = None \<or> user_query = []"
  shows "main_block cfg w category uploaded_file user_query = [] \<and>
         app cfg w category uploaded_file user_query = page_header @ sidebar \<and>
         (\<nexists>req. Http_post req \<in> set (app cfg w category uploaded_file user_query)) \<and>
         (\<nexists>p. Llm_invoke p \<in> set (app cfg w category uploaded_file user_query)) \<and>
         (\<nexists>s c. St_image s c \<in> set (app cfg w category uploaded_file user_query)) \<and>
         (\<nexists>s. St_write s \<in> set (app cfg w category uploaded_file user_query)) \<and>
         (\<nexists>s. St_warning s \<in> set (app cfg w category uploaded_file user_query)) \<and>
         (\<nexists>s. St_error s \<in> set (app cfg w category uploaded_file user_query))"
proof -
  have "main_block cfg w category uploaded_file user_query = []"
    using assms by (auto simp: main_block_def split: option.splits)
  then show ?thesis by (simp add: app_def page_header_def sidebar_def)
qed

theorem incomplete_input_is_a_no_op_witness:
  "main_block example_config
       (example_world (Inr \<lparr>status_code = 200, json = Inr (PList rash_tags)\<rparr>)
          (Inr ''It is a rash.'')) Medical None ''What is this?'' = [] \<and>
     main_block example_config
       (example_world (Inr \<lparr>status_code = 200, json = Inr (PList rash_tags)\<rparr>)
          (Inr ''It is a rash.'')) Medical (Some ''IMG'') [] = []"
  using incomplete_input_is_a_no_op [of None "''What is this?''"]
    incomplete_input_is_a_no_op [of "Some ''IMG''" "[]"]
  by simp

subsection \<open>Disclaimers\<close>

lemma medical_disclaimer_mentions:
  "sublist ''not medical advice''
     ([CHR 0xE2, CHR 0x9A, CHR 0xA0, CHR 0xEF, CHR 0xB8, CHR 0x8F]
        @ '' This is not medical advice - Consult a doctor for diagnosis'')"
proof -
  have "sublist ''not medical advice''
     (([CHR 0xE2, CHR 0x9A, CHR 0xA0, CHR 0xEF, CHR 0xB8, CHR 0x8F] @ '' This is '')
        @ ''not medical advice'' @ '' - Consult a doctor for diagnosis'')"
    by (rule sublist_appendI)
  then show ?thesis by simp
qed

lemma product_disclaimer_mentions:
  "sublist ''approximate''
     ([CHR 0xE2, CHR 0x84, CHR 0xB9, CHR 0xEF, CHR 0xB8, CHR 0x8F]
        @ '' Price estimates are approximate'')"
proof -
  have "sublist ''approximate''
     (([CHR 0xE2, CHR 0x84, CHR 0xB9, CHR 0xEF, CHR 0xB8, CHR 0x8F] @ '' Price estimates are '')
        @ ''approximate'' @ [])"
    by (rule sublist_appendI)
  then show ?thesis by simp
qed

lemma run_analysis_disclaimer:
  assumes "run_analysis cfg w category image_bytes user_query = (Inr (response, disclaimer), evs)"
  shows "disclaimer =
           (case category of
              General \<Rightarrow> []
            | Medical \<Rightarrow> [CHR 0xE2, CHR 0x9A, CHR 0xA0, CHR 0xEF, CHR 0xB8, CHR 0x8F]
                 @ '' This is not medical advice - Consult a doctor for diagnosis''
            | Product \<Rightarrow> [CHR 0xE2, CHR 0x84, CHR 0xB9, CHR 0xEF, CHR 0xB8, CHR 0x8F]
                 @ '' Price estimates are approximate'')"
proof (cases category)
  case General
  obtain v evs' where a: "analyze_image cfg w image_bytes (GENERAL_MODEL cfg) = (Inr v, evs')"
    using analyze_image_total by blast
  obtain p where f: "format_template general_template
      [(''analysis'', py_str w v), (''query'', user_query)] = Inr p"
    using format_general by blast
  from run_analysis_general [OF a f] assms General show ?thesis
    by (cases "groq_chat w p") simp_all
next
  case Medical
  obtain v evs' where a: "analyze_image cfg w image_bytes (MEDICAL_MODEL cfg) = (Inr v, evs')"
    using analyze_image_total by blast
  show ?thesis
  proof (cases "medical_tags w v")
    case (Inl e)
    from run_analysis_medical_raises [OF a Inl] assms Medical show ?thesis by simp
  next
    case (Inr tags)
    obtain p where f: "format_template medical_template
        [(''tags'', py_str w tags), (''query'', user_query)] = Inr p"
      using format_medical by blast
    from run_analysis_medical [OF a Inr f] assms Medical show ?thesis
      by (cases "groq_chat w p") simp_all
  qed
next
  case Product
  obtain v evs' where a: "analyze_image cfg w image_bytes (PRODUCT_MODEL cfg) = (Inr v, evs')"
    using analyze_image_total by blast
  obtain p where f: "format_template product_template
      [(''analysis'', py_str w v), (''query'', user_query)] = Inr p"
    using format_product by blast
  from run_analysis_product [OF a f] assms Product show ?thesis
    by (cases "groq_chat w p") simp_all
qed

text \<open>
  Claim C6. Whenever the body of the \<open>try\<close> yields a response, the disclaimer it yields
  with it is determined by the category alone: a fixed non-empty text containing
  \<open>not medical advice\<close> for Medical, a fixed non-empty text containing \<open>approximate\<close> for
  Product, and the empty string for General. The result block is followed by the
  disclaimer as a warning for Medical and Product, and by nothing for General.
\<close>

theorem disclaimer_depends_on_category_only:
  assumes "run_analysis cfg w category image_bytes user_query = (Inr (response, disclaimer), evs)"
  shows "disclaimer =
           (case category of
              General \<Rightarrow> []
            | Medical \<Rightarrow> [CHR 0xE2, CHR 0x9A, CHR 0xA0, CHR 0xEF, CHR 0xB8, CHR 0x8F]
                 @ '' This is not medical advice - Consult a doctor for diagnosis''
            | Product \<Rightarrow> [CHR 0xE2, CHR 0x84, CHR 0xB9, CHR 0xEF, CHR 0xB8, CHR 0x8F]
                 @ '' Price estimates are approximate'') \<and>
         (case category of
            General \<Rightarrow> disclaimer = []
          | Medical \<Rightarrow> disclaimer \<noteq> [] \<and> sublist ''not medical advice'' disclaimer
          | Product \<Rightarrow> disclaimer \<noteq> [] \<and> sublist ''approximate'' disclaimer) \<and>
         snd (show_results (response, disclaimer)) =
           [St_subheader ''Analysis Results'', St_write response]
             @ (case category of
                  General \<Rightarrow> []
                | Medical \<Rightarrow> [St_warning disclaimer]
                | Product \<Rightarrow> [St_warning disclaimer])"
proof -
  note d = run_analysis_disclaimer [OF assms]
  show ?thesis
  proof (cases category)
    case General
    with d show ?thesis by (simp add: show_results_def)
  next
    case Medical
    with d medical_disclaimer_mentions show ?thesis by (simp add: show_results_def)
  next
    case Product
    with d product_disclaimer_mentions show ?thesis by (simp add: show_results_def)
  qed
qed

theorem disclaimer_depends_on_category_only_witness:
  "fst (run_analysis example_config
            (example_world (Inr \<lparr>status_code = 200, json = Inr (PList rash_tags)\<rparr>)
               (Inr ''It is a rash.''))
            Medical ''IMG'' ''What is this?'') =
       Inr (''It is a rash.'',
            [CHR 0xE2, CHR 0x9A, CHR 0xA0, CHR 0xEF, CHR 0xB8, CHR 0x8F]
              @ '' This is not medical advice - Consult a doctor for diagnosis'') \<and>
     snd (show_results (''It is a rash.'',
            [CHR 0xE2, CHR 0x9A, CHR 0xA0, CHR 0xEF, CHR 0xB8, CHR 0x8F]
              @ '' This is not medical advice - Consult a doctor for diagnosis'')) =
       [St_subheader ''Analysis Results'', St_write ''It is a rash.'',
        St_warning ([CHR 0xE2, CHR 0x9A, CHR 0xA0, CHR 0xEF, CHR 0xB8, CHR 0x8F]
              @ '' This is not medical advice - Consult a doctor for diagnosis'')] \<and>
     fst (run_analysis example_config
            (example_world (Inr \<lparr>status_code = 503, json = Inr PNone\<rparr>)
               (Inr ''Nothing to see.''))
            General ''IMG'' ''What is this?'') = Inr (''Nothing to see.'', []) \<and>
     snd (show_results (''Nothing to see.'', [])) =
       [St_subheader ''Analysis Results'', St_write ''Nothing to see.'']"
proof -
  let ?w = "example_world (Inr \<lparr>status_code = 200, json = Inr (PList rash_tags)\<rparr>)
               (Inr ''It is a rash.'')"
  let ?w' = "example_world (Inr \<lparr>status_code = 503, json = Inr PNone\<rparr>)
               (Inr ''Nothing to see.'')"
  let ?d = "[CHR 0xE2, CHR 0x9A, CHR 0xA0, CHR 0xEF, CHR 0xB8, CHR 0x8F]
              @ '' This is not medical advice - Consult a doctor for diagnosis''"
  have m1: "fst (run_analysis example_config ?w Medical ''IMG'' ''What is this?'') =
      Inr (''It is a rash.'', ?d)"
    by (simp add: run_defs rash_tags_def)
  then have m: "run_analysis example_config ?w Medical ''IMG'' ''What is this?'' =
      (Inr (''It is a rash.'', ?d),
       snd (run_analysis example_config ?w Medical ''IMG'' ''What is this?''))"
    by (simp add: prod_eq_iff)
  have g1: "fst (run_analysis example_config ?w' General ''IMG'' ''What is this?'') =
      Inr (''Nothing to see.'', [])"
    by (simp add: run_defs)
  then have g: "run_analysis example_config ?w' General ''IMG'' ''What is this?'' =
      (Inr (''Nothing to see.'', []),
       snd (run_analysis example_config ?w' General ''IMG'' ''What is this?''))"
    by (simp add: prod_eq_iff)
  have "snd (show_results (''It is a rash.'', ?d)) =
       [St_subheader ''Analysis Results'', St_write ''It is a rash.'', St_warning ?d]"
    using disclaimer_depends_on_category_only [OF m] by simp
  moreover have "snd (show_results (''Nothing to see.'', [])) =
       [St_subheader ''Analysis Results'', St_write ''Nothing to see.'']"
    using disclaimer_depends_on_category_only [OF g] by simp
  ultimately
  show "fst (run_analysis example_config ?w Medical ''IMG'' ''What is this?'') =
       Inr (''It is a rash.'', ?d) \<and>
     snd (show_results (''It is a rash.'', ?d)) =
       [St_subheader ''Analysis Results'', St_write ''It is a rash.'', St_warning ?d] \<and>
     fst (run_analysis example_config ?w' General ''IMG'' ''What is this?'') =
       Inr (''Nothing to see.'', []) \<and>
     snd (show_results (''Nothing to see.'', [])) =
       [St_subheader ''Analysis Results'', St_write ''Nothing to see.'']"
    using m1 g1 by blast
qed

subsection \<open>A 200 response: the decoded body, or the decoding error\<close>

text \<open>
  Claim C7 as stated fails. \<open>response.json()\<close> is called inside the \<open>try\<close>, so when a
  response has status 200 and a body that is not JSON, the decoding exception is caught
  like a transport exception and \<open>analyze_image\<close> returns the error string.
\<close>

theorem undecodable_200_body_counterexample:
  "status_code undecodable_response = 200 \<and>
   analyze_image example_config
     (example_world (Inr undecodable_response) (Inr ''ok''))
     ''IMG'' ''general-vit'' =
   (Inr (PStr ''Analysis error: Expecting value: line 1 column 1 (char 0)''),
    [Http_post \<lparr>url = ''https://api-inference.huggingface.co/models/general-vit'',
                headers = [(''Authorization'', ''Bearer hf_secret'')],
                data = ''IMG'', timeout = 30\<rparr>])"
  by (simp add: analyze_image_eq undecodable_response_def example_world_def example_config_def)

text \<open>
  Claim C7, amended. On a response with status 200, \<open>analyze_image\<close> returns the decoded
  body as it is when \<open>json()\<close> returns a value (a list stays that list, any other value
  stays that value), and the string \<open>Analysis error: \<close> followed by the exception's
  message when \<open>json()\<close> raises.
\<close>

theorem status_200_returns_decoded_body_or_decode_error:
  assumes "requests_post w \<lparr>url = HF_API_URL cfg @ model_name,
                 headers = [(''Authorization'', ''Bearer '' @ HF_TOKEN cfg)],
                 data = image_bytes, timeout = 30\<rparr> = Inr response"
    and "status_code response = 200"
  shows "fst (analyze_image cfg w image_bytes model_name) =
           Inr (case json response of
                  Inl e \<Rightarrow> PStr (''Analysis error: '' @ exc_str e)
                | Inr v \<Rightarrow> v)"
  using assms by (simp add: analyze_image_eq)

theorem status_200_returns_decoded_body_or_decode_error_witness:
  "fst (analyze_image example_config
            (example_world
               (Inr \<lparr>status_code = 200,
                     json = Inr (PDict [(''description'', PStr ''a red bicycle'')])\<rparr>)
               (Inr ''A bicycle.''))
            ''IMG'' ''general-vit'') =
       Inr (PDict [(''description'', PStr ''a red bicycle'')]) \<and>
     fst (analyze_image example_config
            (example_world (Inr \<lparr>status_code = 200, json = Inr (PList rash_tags)\<rparr>)
               (Inr ''A rash.''))
            ''IMG'' ''medical-clip'') = Inr (PList rash_tags) \<and>
     fst (analyze_image example_config
            (example_world (Inr undecodable_response) (Inr ''ok''))
            ''IMG'' ''general-vit'') =
       Inr (PStr ''Analysis error: Expecting value: line 1 column 1 (char 0)'')"
proof -
  have dict: "requests_post
      (example_world
         (Inr \<lparr>status_code = 200,
               json = Inr (PDict [(''description'', PStr ''a red bicycle'')])\<rparr>)
         (Inr ''A bicycle.'')) req =
      Inr \<lparr>status_code = 200,
            json = Inr (PDict [(''description'', PStr ''a red bicycle'')])\<rparr>" for req
    by (simp add: example_world_def)
  have tags: "requests_post
      (example_world (Inr \<lparr>status_code = 200, json = Inr (PList rash_tags)\<rparr>)
         (Inr ''A rash.'')) req =
      Inr \<lparr>status_code = 200, json = Inr (PList rash_tags)\<rparr>" for req
    by (simp add: example_world_def)
  have bad: "requests_post (example_world (Inr undecodable_response) (Inr ''ok'')) req =
      Inr undecodable_response" for req
    by (simp add: example_world_def)
  have ok: "status_code undecodable_response = 200"
    by (simp add: undecodable_response_def)
  from status_200_returns_decoded_body_or_decode_error [OF dict]
    status_200_returns_decoded_body_or_decode_error [OF tags]
    status_200_returns_decoded_body_or_decode_error [OF bad ok]
  show "fst (analyze_image example_config
            (example_world
               (Inr \<lparr>status_code = 200,
                     json = Inr (PDict [(''description'', PStr ''a red bicycle'')])\<rparr>)
               (Inr ''A bicycle.''))
            ''IMG'' ''general-vit'') =
       Inr (PDict [(''description'', PStr ''a red bicycle'')]) \<and>
     fst (analyze_image example_config
            (example_world (Inr \<lparr>status_code = 200, json = Inr (PList rash_tags)\<rparr>)
               (Inr ''A rash.''))
            ''IMG'' ''medical-clip'') = Inr (PList rash_tags) \<and>
     fst (analyze_image example_config
            (example_world (Inr undecodable_response) (Inr ''ok''))
            ''IMG'' ''general-vit'') =
       Inr (PStr ''Analysis error: Expecting value: line 1 column 1 (char 0)'')"
    by (simp add: undecodable_response_def)
qed

subsection \<open>Medical items without a label\<close>

lemma getitem_raises:
  assumes "\<nexists>d v. item = PDict d \<and> map_of d k = Some v"
  shows "\<exists>e. getitem w item k = Inl e"
  using assms by (cases item) (auto split: option.splits)

lemma item_labels_raises:
  "\<not> list_all (\<lambda>item. \<exists>d v. item = PDict d \<and> map_of d ''label'' = Some v) items
   \<Longrightarrow> \<exists>e. item_labels w items = Inl e"
proof (induction items)
  case Nil
  then show ?case by simp
next
  case (Cons item items)
  show ?case
  proof (cases "getitem w item ''label''")
    case (Inl e)
    then show ?thesis by simp
  next
    case (Inr v)
    have "\<exists>d v. item = PDict d \<and> map_of d ''label'' = Some v"
    proof (rule ccontr)
      assume "\<nexists>d v. item = PDict d \<and> map_of d ''label'' = Some v"
      from getitem_raises [OF this, of w] Inr show False by simp
    qed
    with Cons.prems
    have "\<not> list_all (\<lambda>item. \<exists>d v. item = PDict d \<and> map_of d ''label'' = Some v) items"
      by auto
    from Cons.IH [OF this] Inr show ?thesis by auto
  qed
qed

text \<open>
  Claim C10. In the Medical branch, when the tag extractor returns a list in which some
  item is not a dict with a \<open>"label"\<close> key, line 125 raises (\<open>KeyError\<close> or \<open>TypeError\<close>)
  before any prompt is composed: the language model is never called, and the submission
  ends with the failure message of the page's \<open>except\<close> instead of a result.
\<close>

theorem unlabelled_medical_item_fails_submission:
  assumes "user_query \<noteq> []"
    and "fst (analyze_image cfg w image_bytes (MEDICAL_MODEL cfg)) = Inr (PList items)"
    and "\<not> list_all (\<lambda>item. \<exists>d v. item = PDict d \<and> map_of d ''label'' = Some v) items"
  shows "\<exists>e. medical_tags w (PList items) = Inl e \<and>
           main_block cfg w Medical (Some image_bytes) user_query =
             [St_image image_bytes ''Uploaded Image'', St_spinner ''Analyzing...'',
              Http_post \<lparr>url = HF_API_URL cfg @ MEDICAL_MODEL cfg,
                 headers = [(''Authorization'', ''Bearer '' @ HF_TOKEN cfg)],
                 data = image_bytes, timeout = 30\<rparr>,
              St_error (''Analysis failed: '' @ exc_str e)]"
proof -
  obtain e where e: "item_labels w items = Inl e"
    using item_labels_raises [OF assms(3)] by blast
  then have t: "medical_tags w (PList items) = Inl e" by simp
  have a: "analyze_image cfg w image_bytes (MEDICAL_MODEL cfg) =
      (Inr (PList items),
       [Http_post \<lparr>url = HF_API_URL cfg @ MEDICAL_MODEL cfg,
                 headers = [(''Authorization'', ''Bearer '' @ HF_TOKEN cfg)],
                 data = image_bytes, timeout = 30\<rparr>])"
    using assms(2) analyze_image_total [of cfg w image_bytes "MEDICAL_MODEL cfg"] by auto
  from main_block_medical_raises [OF assms(1) a t] t show ?thesis by simp
qed

theorem unlabelled_medical_item_fails_submission_witness:
  "main_block example_config
       (example_world
          (Inr \<lparr>status_code = 200,
                json = Inr (PList [PDict [(''label'', PStr ''rash''), (''score'', PFloat 0.9)],
                                   PInt 3])\<rparr>)
          (Inr ''It is a rash.''))
       Medical (Some ''IMG'') ''What is this?'' =
     [St_image ''IMG'' ''Uploaded Image'', St_spinner ''Analyzing...'',
      Http_post \<lparr>url = ''https://api-inference.huggingface.co/models/medical-clip'',
                 headers = [(''Authorization'', ''Bearer hf_secret'')],
                 data = ''IMG'', timeout = 30\<rparr>,
      St_error (''Analysis failed: '' @ quoted ''int'' @ '' object is not subscriptable'')]"
proof -
  let ?items = "[PDict [(''label'', PStr ''rash''), (''score'', PFloat 0.9)], PInt 3]"
  let ?w = "example_world (Inr \<lparr>status_code = 200, json = Inr (PList ?items)\<rparr>)
          (Inr ''It is a rash.'')"
  have q: "''What is this?'' \<noteq> []" by simp
  have a: "fst (analyze_image example_config ?w ''IMG'' (MEDICAL_MODEL example_config)) =
      Inr (PList ?items)"
    by (simp add: analyze_image_eq example_world_def)
  have u: "\<not> list_all (\<lambda>item. \<exists>d v. item = PDict d \<and> map_of d ''label'' = Some v) ?items"
    by simp
  from unlabelled_medical_item_fails_submission [OF q a u]
  obtain e where "medical_tags ?w (PList ?items) = Inl e"
    and tr: "main_block example_config ?w Medical (Some ''IMG'') ''What is this?'' =
       [St_image ''IMG'' ''Uploaded Image'', St_spinner ''Analyzing...'',
        Http_post \<lparr>url = HF_API_URL example_config @ MEDICAL_MODEL example_config,
           headers = [(''Authorization'', ''Bearer '' @ HF_TOKEN example_config)],
           data = ''IMG'', timeout = 30\<rparr>,
        St_error (''Analysis failed: '' @ exc_str e)]"
    by blast
  then have "e = TypeError (quoted ''int'' @ '' object is not subscriptable'')"
    by simp
  with tr show "main_block example_config ?w Medical (Some ''IMG'') ''What is this?'' =
     [St_image ''IMG'' ''Uploaded Image'', St_spinner ''Analyzing...'',
      Http_post \<lparr>url = ''https://api-inference.huggingface.co/models/medical-clip'',
                 headers = [(''Authorization'', ''Bearer hf_secret'')],
                 data = ''IMG'', timeout = 30\<rparr>,
      St_error (''Analysis failed: '' @ quoted ''int'' @ '' object is not subscriptable'')]"
    by (simp add: example_config_def TypeError_def)
qed

end
